theory Spec2Isabelle
  imports Complex_Main "HOL-Library.Word"
begin

unbundle bit_operations_syntax

section \<open>Data model\<close>

subsection \<open>Opcodes (opcodes.hh)\<close>

text \<open>
  The enumeration of \<^verbatim>\<open>DEFINE_OPCODES\<close>, in the order of the source file. A native
  handler \<^verbatim>\<open>f_NAME\<close> is identified with its opcode.
\<close>

datatype Opcode =
    op_INTERP | op_TAILINTERP | op_LITERAL | op_INT | op_RETURN | op_BRANCH | op_ZBRANCH
  | op_NOP | op_RECURSE | op_DROP | op_DUP | op_OVER | op_ROT | op_ROTn | op_SWAP
  | op_ZERO | op_ONE | op_EQ | op_NE | op_EQ_ZERO | op_NE_ZERO | op_GE | op_GT
  | op_GT_ZERO | op_LE | op_LT | op_LT_ZERO | op_ABS | op_MAX | op_MIN | op_DIV | op_MOD
  | op_MINUS | op_MULT | op_PLUS | op_CALL | op_NULL | op_LENGTH | op_IFELSE | op_DEFINE
  | op_GETARG | op_SETARG | op_LOCALS | op_DROPARGS | op_PRINT | op_SP | op_NL | op_NLQ

subsection \<open>Values\<close>

text \<open>
  Modelled from the spec: \<^verbatim>\<open>Value\<close> (value.hh is not part of the sources). A tagged
  scalar with the variants Null, Number, String, Array and Quote. Numbers are C++ doubles;
  they are modelled as reals, which agrees with doubles on the small integers the
  developments below compute with. A quote holds the address of a compiled word's
  instruction buffer.
\<close>

datatype Value = Null | Number real | String string | Array "Value list" | Quote nat

subsection \<open>Instructions\<close>

text \<open>
  \<^verbatim>\<open>Instruction\<close> is a union: a cell of threaded code holds either a native handler
  (\<^verbatim>\<open>native\<close>), a branch offset or integer parameter (\<^verbatim>\<open>offset\<close>), a literal value
  (\<^verbatim>\<open>literal\<close>), the address of another word's instruction array (\<^verbatim>\<open>word\<close>), or the
  packed pair of \<^verbatim>\<open>_DROPARGS\<close>. Addresses are indices into a heap of instruction arrays.
\<close>

datatype Instruction =
    Native Opcode
  | Offset int
  | Literal Value
  | WordPtr nat
  | DropCount "8 word" "8 word"

subsection \<open>Stack effects\<close>

text \<open>
  Modelled from the spec: \<^verbatim>\<open>TypeSet\<close> and \<^verbatim>\<open>StackEffect\<close> (stack_effect.hh is not part of
  the sources). A type set is a set of flags in a byte; a stack effect is the list of the
  types of its inputs, the list of the types of its outputs, and the peak depth \<^verbatim>\<open>max\<close>.
\<close>

type_synonym TypeSet = "8 word"

record StackEffect =
  inputs :: "TypeSet list"
  outputs :: "TypeSet list"
  max_depth :: nat

definition inputCount :: "StackEffect \<Rightarrow> nat" where
  "inputCount e = length (inputs e)"

definition outputCount :: "StackEffect \<Rightarrow> nat" where
  "outputCount e = length (outputs e)"

text \<open>\<^verbatim>\<open>StackEffect(i, o)\<close> and \<^verbatim>\<open>StackEffect(i, o, max)\<close> of core_words.cc: untyped slots.\<close>

definition StackEffect_io :: "nat \<Rightarrow> nat \<Rightarrow> nat \<Rightarrow> StackEffect" where
  "StackEffect_io i out m = \<lparr>inputs = replicate i 0x1F, outputs = replicate out 0x1F, max_depth = m\<rparr>"

definition StackEffect_empty :: StackEffect where
  "StackEffect_empty = \<lparr>inputs = [], outputs = [], max_depth = 0\<rparr>"

subsection \<open>Words (word.hh)\<close>

type_synonym Flags = "8 word"

definition NoFlags :: Flags where "NoFlags = 0x00"
definition Native_flag :: Flags where "Native_flag = 0x01"
definition HasIntParam :: Flags where "HasIntParam = 0x02"
definition HasValParam :: Flags where "HasValParam = 0x04"
definition Magic :: Flags where "Magic = 0x08"
definition Inline :: Flags where "Inline = 0x10"

text \<open>
  Modelled from the spec: the flag \<^verbatim>\<open>Word::Recursive\<close>, which compiler.cc sets and the
  enumeration of word.hh does not list; the spec names it as the sixth flag.
\<close>

definition Recursive :: Flags where "Recursive = 0x20"

record Word =
  instr :: Instruction
  name :: "string option"
  effect :: StackEffect
  flags :: Flags

text \<open>The two constructors of \<^verbatim>\<open>Word\<close>: a native word, and an interpreted word.\<close>

definition Word_native :: "string \<Rightarrow> Opcode \<Rightarrow> StackEffect \<Rightarrow> Flags \<Rightarrow> Word" where
  "Word_native n f e fl = \<lparr>instr = Native f, name = Some n, effect = e, flags = fl OR Native_flag\<rparr>"

definition Word_interp :: "string \<Rightarrow> StackEffect \<Rightarrow> nat \<Rightarrow> Word" where
  "Word_interp n e ws = \<lparr>instr = WordPtr ws, name = Some n, effect = e, flags = NoFlags\<rparr>"

definition hasFlag :: "Word \<Rightarrow> Flags \<Rightarrow> bool" where
  "hasFlag w f = (flags w AND f \<noteq> 0)"

definition isNative :: "Word \<Rightarrow> bool" where
  "isNative w = hasFlag w Native_flag"

definition hasIntParam :: "Word \<Rightarrow> bool" where
  "hasIntParam w = hasFlag w HasIntParam"

definition hasValParam :: "Word \<Rightarrow> bool" where
  "hasValParam w = hasFlag w HasValParam"

definition hasAnyParam :: "Word \<Rightarrow> bool" where
  "hasAnyParam w = (flags w AND (HasIntParam OR HasValParam) \<noteq> 0)"

definition isMagic :: "Word \<Rightarrow> bool" where
  "isMagic w = hasFlag w Magic"

text \<open>
  \<^verbatim>\<open>operator==\<close> reads the \<^verbatim>\<open>native\<close> member of both instruction unions, whatever member
  was stored: the comparison is on the raw contents of the cell. \<open>native_bits\<close> is that
  raw reading of a word's instruction: the handler of a native word, the array address of
  an interpreted one.
\<close>

datatype RawCell = HandlerBits Opcode | PointerBits nat | OtherBits Instruction

fun native_bits :: "Instruction \<Rightarrow> RawCell" where
  "native_bits (Native f) = HandlerBits f"
| "native_bits (WordPtr a) = PointerBits a"
| "native_bits i = OtherBits i"

definition word_eq :: "Word \<Rightarrow> Word \<Rightarrow> bool" where
  "word_eq a b = (native_bits (instr a) = native_bits (instr b))"

definition word_ne :: "Word \<Rightarrow> Word \<Rightarrow> bool" where
  "word_ne a b = (\<not> word_eq a b)"


section \<open>Core words (core_words.cc)\<close>

text \<open>
  The words are written under the names of core_words.cc. The compiler refers to words
  named \<^verbatim>\<open>_RETURN\<close>, \<^verbatim>\<open>_BRANCH\<close>, \<^verbatim>\<open>_ZBRANCH\<close> and \<^verbatim>\<open>_LITERAL\<close>, which core_words.cc does
  not define under these names; the model takes \<^verbatim>\<open>RETURN\<close>, \<^verbatim>\<open>BRANCH\<close>, \<^verbatim>\<open>ZBRANCH\<close> and
  \<^verbatim>\<open>LITERAL\<close> for them. A word whose source name is reserved syntax of HOL carries the
  suffix \<open>_word\<close>.
\<close>

definition CALL :: Word where
  "CALL = Word_native ''CALL'' op_CALL (StackEffect_io 1 1 0) Magic"

definition RETURN :: Word where
  "RETURN = Word_native ''RETURN'' op_RETURN (StackEffect_io 0 0 0) 0"

definition LITERAL :: Word where
  "LITERAL = Word_native ''LITERAL'' op_LITERAL (StackEffect_io 0 1 1) (Magic OR HasValParam)"

definition DUP :: Word where
  "DUP = Word_native ''DUP'' op_DUP (StackEffect_io 1 2 1) 0"

definition DROP :: Word where
  "DROP = Word_native ''DROP'' op_DROP (StackEffect_io 1 0 0) 0"

definition SWAP :: Word where
  "SWAP = Word_native ''SWAP'' op_SWAP (StackEffect_io 2 2 0) 0"

definition OVER :: Word where
  "OVER = Word_native ''OVER'' op_OVER (StackEffect_io 2 3 1) 0"

definition ROT :: Word where
  "ROT = Word_native ''ROT'' op_ROT (StackEffect_io 3 3 0) 0"

definition NOP :: Word where
  "NOP = Word_native ''NOP'' op_NOP (StackEffect_io 0 0 0) 0"

definition BRANCH :: Word where
  "BRANCH = Word_native ''BRANCH'' op_BRANCH (StackEffect_io 0 0 0) (Magic OR HasIntParam)"

definition ZBRANCH :: Word where
  "ZBRANCH = Word_native ''0BRANCH'' op_ZBRANCH (StackEffect_io 1 0 0) (Magic OR HasIntParam)"

definition ZERO :: Word where
  "ZERO = Word_native ''0'' op_ZERO (StackEffect_io 0 1 1) 0"

definition ONE :: Word where
  "ONE = Word_native ''1'' op_ONE (StackEffect_io 0 1 1) 0"

definition NULL_word :: Word where
  "NULL_word = Word_native ''NULL'' op_NULL (StackEffect_io 0 1 1) 0"

definition PLUS :: Word where
  "PLUS = Word_native ''+'' op_PLUS (StackEffect_io 2 1 0) NoFlags"

definition MINUS :: Word where
  "MINUS = Word_native ''-'' op_MINUS (StackEffect_io 2 1 0) NoFlags"

definition MULT :: Word where
  "MULT = Word_native ''*'' op_MULT (StackEffect_io 2 1 0) NoFlags"

definition DIV_word :: Word where
  "DIV_word = Word_native ''/'' op_DIV (StackEffect_io 2 1 0) NoFlags"

definition MOD_word :: Word where
  "MOD_word = Word_native ''MOD'' op_MOD (StackEffect_io 2 1 0) NoFlags"

definition EQ_word :: Word where
  "EQ_word = Word_native ''='' op_EQ (StackEffect_io 2 1 0) NoFlags"

definition NE_word :: Word where
  "NE_word = Word_native ''<>'' op_NE (StackEffect_io 2 1 0) NoFlags"

definition GT_word :: Word where
  "GT_word = Word_native ''>'' op_GT (StackEffect_io 2 1 0) NoFlags"

definition GE_word :: Word where
  "GE_word = Word_native ''>='' op_GE (StackEffect_io 2 1 0) NoFlags"

definition LT_word :: Word where
  "LT_word = Word_native ''<'' op_LT (StackEffect_io 2 1 0) NoFlags"

definition LE_word :: Word where
  "LE_word = Word_native ''<='' op_LE (StackEffect_io 2 1 0) NoFlags"

definition EQ_ZERO :: Word where
  "EQ_ZERO = Word_native ''0='' op_EQ_ZERO (StackEffect_io 1 1 0) 0"

definition NE_ZERO :: Word where
  "NE_ZERO = Word_native ''0<>'' op_NE_ZERO (StackEffect_io 1 1 0) 0"

definition GT_ZERO :: Word where
  "GT_ZERO = Word_native ''0>'' op_GT_ZERO (StackEffect_io 1 1 0) 0"

definition LT_ZERO :: Word where
  "LT_ZERO = Word_native ''0<'' op_LT_ZERO (StackEffect_io 1 1 0) 0"

definition LENGTH_word :: Word where
  "LENGTH_word = Word_native ''LENGTH'' op_LENGTH (StackEffect_io 1 1 0) 0"

text \<open>
  Modelled from the spec: the words \<^verbatim>\<open>_INT\<close>, \<^verbatim>\<open>_RECURSE\<close>, \<^verbatim>\<open>_GETARG\<close>, \<^verbatim>\<open>_SETARG\<close>,
  \<^verbatim>\<open>_LOCALS\<close> and \<^verbatim>\<open>_DROPARGS\<close>, which compiler.cc emits and core_words.cc does not
  define. The spec gives each an inline integer parameter (the packed pair for
  \<^verbatim>\<open>_DROPARGS\<close>) and calls them low-level words, not user-callable.
\<close>

definition INT_word :: Word where
  "INT_word = Word_native ''_INT'' op_INT (StackEffect_io 0 1 1) (Magic OR HasIntParam)"

definition RECURSE :: Word where
  "RECURSE = Word_native ''_RECURSE'' op_RECURSE (StackEffect_io 0 0 0) (Magic OR HasIntParam)"

definition GETARG :: Word where
  "GETARG = Word_native ''_GETARG'' op_GETARG (StackEffect_io 0 1 1) (Magic OR HasIntParam)"

definition SETARG :: Word where
  "SETARG = Word_native ''_SETARG'' op_SETARG (StackEffect_io 1 0 0) (Magic OR HasIntParam)"

definition LOCALS :: Word where
  "LOCALS = Word_native ''_LOCALS'' op_LOCALS (StackEffect_io 0 0 0) (Magic OR HasIntParam)"

definition DROPARGS :: Word where
  "DROPARGS = Word_native ''_DROPARGS'' op_DROPARGS (StackEffect_io 0 0 0) (Magic OR HasIntParam)"

subsection \<open>Interpreted words\<close>

text \<open>
  \<^verbatim>\<open>INTERP_WORD(NAME, FORTHNAME, EFFECT, ...)\<close> declares the instruction array
  \<^verbatim>\<open>i_NAME[] { __VA_ARGS__, _RETURN }\<close> and a word that points to it. A word in the
  argument list converts to its instruction cell (\<^verbatim>\<open>operator Instruction\<close>).
\<close>

definition INTERP_array :: "Instruction list \<Rightarrow> Instruction list" where
  "INTERP_array args = args @ [instr RETURN]"

definition i_SQUARE :: "Instruction list" where
  "i_SQUARE = INTERP_array [instr DUP, instr MULT]"

definition i_ABS :: "Instruction list" where
  "i_ABS = INTERP_array
     [instr DUP, instr LT_ZERO, instr ZBRANCH, Offset 3, instr ZERO, instr SWAP, instr MINUS]"

definition i_MAX :: "Instruction list" where
  "i_MAX = INTERP_array
     [instr OVER, instr OVER, instr LT_word, instr ZBRANCH, Offset 1, instr SWAP, instr DROP]"

definition i_MIN :: "Instruction list" where
  "i_MIN = INTERP_array
     [instr OVER, instr OVER, instr GT_word, instr ZBRANCH, Offset 1, instr SWAP, instr DROP]"

text \<open>
  The static arrays live at fixed addresses. The heap maps an address to the instruction
  array stored there; the four arrays of core_words.cc take the addresses 0 to 3, and
  buffers of compiled words are allocated after them.
\<close>

type_synonym Heap = "Instruction list list"

definition rom :: Heap where
  "rom = [i_SQUARE, i_ABS, i_MAX, i_MIN]"

definition SQUARE :: Word where
  "SQUARE = Word_interp ''SQUARE'' (StackEffect_io 1 1 1) 0"

definition ABS :: Word where
  "ABS = Word_interp ''ABS'' (StackEffect_io 1 1 1) 1"

definition MAX_word :: Word where
  "MAX_word = Word_interp ''MAX'' (StackEffect_io 2 1 2) 2"

definition MIN_word :: Word where
  "MIN_word = Word_interp ''MIN'' (StackEffect_io 2 1 2) 3"

text \<open>\<^verbatim>\<open>kWords\<close>, the list that registers the core words in the vocabulary at startup.\<close>

definition kWords :: "Word list" where
  "kWords = [CALL, LITERAL, RETURN,
     DROP, DUP, OVER, ROT, SWAP, NOP,
     BRANCH, ZBRANCH,
     ZERO, ONE, NULL_word,
     EQ_word, NE_word, EQ_ZERO, NE_ZERO,
     GE_word, GT_word, GT_ZERO,
     LE_word, LT_word, LT_ZERO,
     ABS, MAX_word, MIN_word, SQUARE,
     DIV_word, MOD_word, MINUS, MULT, PLUS,
     LENGTH_word]"


section \<open>The threaded-code interpreter (core_words.cc)\<close>

text \<open>
  A native handler has the signature \<^verbatim>\<open>(sp, pc) \<rightarrow> sp\<close>. The data stack is modelled as
  the list of the values at and below \<^verbatim>\<open>sp\<close>, top first: \<^verbatim>\<open>sp[0]\<close> is the head,
  \<^verbatim>\<open>sp[-1]\<close> the second element, \<^verbatim>\<open>++sp\<close> conses and \<^verbatim>\<open>--sp\<close> drops the head. \<^verbatim>\<open>pc\<close> is
  an index into the instruction array of the running word; when a handler is entered it
  points to the cell after the handler's own cell, which is where an inline parameter
  stands (\<^verbatim>\<open>(pc++)->literal\<close>, \<^verbatim>\<open>pc->offset\<close>).

  The interpreter performs no checks. A read below the stack, a read outside of the
  instruction array, and the execution of a cell that holds no handler are undefined
  behaviour of the C++ program; the model stops with \<open>Undefined\<close> there. An operation
  whose implementation is not part of the sources (an operator of \<^verbatim>\<open>Value\<close> on operands
  the spec does not describe, a handler that core_words.cc does not define) stops with
  \<open>Unmodelled\<close>.
\<close>

datatype Outcome = Returned "Value list" | Undefined | Unmodelled

datatype Step = NEXT "Value list" int | Halt Outcome

definition cell :: "Instruction list \<Rightarrow> int \<Rightarrow> Instruction option" where
  "cell code pc = (if 0 \<le> pc \<and> pc < int (length code) then Some (code ! nat pc) else None)"

text \<open>
  Modelled from the spec: the operators of \<^verbatim>\<open>Value\<close> that the handlers use (value.hh is
  not part of the sources): \<^verbatim>\<open>!v\<close>, arithmetic and ordering on numbers, equality,
  concatenation of strings, \<^verbatim>\<open>length()\<close> of strings and arrays. A relational operator
  yields the number 1 or 0. What the spec does not describe (operands of other types,
  division by zero, \<^verbatim>\<open>%\<close>) is \<open>None\<close>.
\<close>

fun falsy :: "Value \<Rightarrow> bool" where
  "falsy Null = True"
| "falsy (Number n) = (n = 0)"
| "falsy v = False"

definition Value_bool :: "bool \<Rightarrow> Value" where
  "Value_bool b = Number (if b then 1 else 0)"

fun Value_plus :: "Value \<Rightarrow> Value \<Rightarrow> Value option" where
  "Value_plus (Number a) (Number b) = Some (Number (a + b))"
| "Value_plus (String a) (String b) = Some (String (a @ b))"
| "Value_plus a b = None"

fun Value_minus :: "Value \<Rightarrow> Value \<Rightarrow> Value option" where
  "Value_minus (Number a) (Number b) = Some (Number (a - b))"
| "Value_minus a b = None"

fun Value_times :: "Value \<Rightarrow> Value \<Rightarrow> Value option" where
  "Value_times (Number a) (Number b) = Some (Number (a * b))"
| "Value_times a b = None"

fun Value_divide :: "Value \<Rightarrow> Value \<Rightarrow> Value option" where
  "Value_divide (Number a) (Number b) = (if b = 0 then None else Some (Number (a / b)))"
| "Value_divide a b = None"

fun Value_mod :: "Value \<Rightarrow> Value \<Rightarrow> Value option" where
  "Value_mod a b = None"

fun Value_eq :: "Value \<Rightarrow> Value \<Rightarrow> Value option" where
  "Value_eq a b = Some (Value_bool (a = b))"

fun Value_ne :: "Value \<Rightarrow> Value \<Rightarrow> Value option" where
  "Value_ne a b = Some (Value_bool (a \<noteq> b))"

fun Value_gt :: "Value \<Rightarrow> Value \<Rightarrow> Value option" where
  "Value_gt (Number a) (Number b) = Some (Value_bool (a > b))"
| "Value_gt a b = None"

fun Value_ge :: "Value \<Rightarrow> Value \<Rightarrow> Value option" where
  "Value_ge (Number a) (Number b) = Some (Value_bool (a \<ge> b))"
| "Value_ge a b = None"

fun Value_lt :: "Value \<Rightarrow> Value \<Rightarrow> Value option" where
  "Value_lt (Number a) (Number b) = Some (Value_bool (a < b))"
| "Value_lt a b = None"

fun Value_le :: "Value \<Rightarrow> Value \<Rightarrow> Value option" where
  "Value_le (Number a) (Number b) = Some (Value_bool (a \<le> b))"
| "Value_le a b = None"

fun Value_length :: "Value \<Rightarrow> Value option" where
  "Value_length (String s) = Some (Number (real (length s)))"
| "Value_length (Array vs) = Some (Number (real (length vs)))"
| "Value_length v = None"

subsection \<open>Native handlers\<close>

fun f_RETURN :: "Instruction list \<Rightarrow> Value list \<Rightarrow> int \<Rightarrow> Step" where
  "f_RETURN code sp pc = Halt (Returned sp)"

fun f_LITERAL :: "Instruction list \<Rightarrow> Value list \<Rightarrow> int \<Rightarrow> Step" where
  "f_LITERAL code sp pc =
     (case cell code pc of
        Some (Literal v) \<Rightarrow> NEXT (v # sp) (pc + 1)
      | _ \<Rightarrow> Halt Undefined)"

text \<open>
  Modelled from the spec: the handler of \<^verbatim>\<open>_INT\<close>, which pushes the inline 16-bit integer
  as a number. It is not defined in core_words.cc.
\<close>

fun f_INT :: "Instruction list \<Rightarrow> Value list \<Rightarrow> int \<Rightarrow> Step" where
  "f_INT code sp pc =
     (case cell code pc of
        Some (Offset n) \<Rightarrow> NEXT (Number (real_of_int n) # sp) (pc + 1)
      | _ \<Rightarrow> Halt Undefined)"

fun f_DUP :: "Instruction list \<Rightarrow> Value list \<Rightarrow> int \<Rightarrow> Step" where
  "f_DUP code (a # sp) pc = NEXT (a # a # sp) pc"
| "f_DUP code sp pc = Halt Undefined"

fun f_DROP :: "Instruction list \<Rightarrow> Value list \<Rightarrow> int \<Rightarrow> Step" where
  "f_DROP code (a # sp) pc = NEXT sp pc"
| "f_DROP code sp pc = Halt Undefined"

fun f_SWAP :: "Instruction list \<Rightarrow> Value list \<Rightarrow> int \<Rightarrow> Step" where
  "f_SWAP code (b # a # sp) pc = NEXT (a # b # sp) pc"
| "f_SWAP code sp pc = Halt Undefined"

fun f_OVER :: "Instruction list \<Rightarrow> Value list \<Rightarrow> int \<Rightarrow> Step" where
  "f_OVER code (b # a # sp) pc = NEXT (a # b # a # sp) pc"
| "f_OVER code sp pc = Halt Undefined"

fun f_ROT :: "Instruction list \<Rightarrow> Value list \<Rightarrow> int \<Rightarrow> Step" where
  "f_ROT code (c # b # a # sp) pc = NEXT (a # c # b # sp) pc"
| "f_ROT code sp pc = Halt Undefined"

fun f_NOP :: "Instruction list \<Rightarrow> Value list \<Rightarrow> int \<Rightarrow> Step" where
  "f_NOP code sp pc = NEXT sp pc"

text \<open>\<^verbatim>\<open>pc += pc->offset + 1; NEXT();\<close>\<close>

fun f_BRANCH :: "Instruction list \<Rightarrow> Value list \<Rightarrow> int \<Rightarrow> Step" where
  "f_BRANCH code sp pc =
     (case cell code pc of
        Some (Offset off) \<Rightarrow> NEXT sp (pc + (off + 1))
      | _ \<Rightarrow> Halt Undefined)"

text \<open>
  \<^verbatim>\<open>if (!(*sp--)) pc += pc->offset; ++pc; NEXT();\<close> The post-decrement pops the tested
  value whether or not it is falsy; the offset cell is read only when it is.
\<close>

fun f_ZBRANCH :: "Instruction list \<Rightarrow> Value list \<Rightarrow> int \<Rightarrow> Step" where
  "f_ZBRANCH code (v # sp) pc =
     (if falsy v then
        (case cell code pc of
           Some (Offset off) \<Rightarrow> NEXT sp ((pc + off) + 1)
         | _ \<Rightarrow> Halt Undefined)
      else NEXT sp (pc + 1))"
| "f_ZBRANCH code [] pc = Halt Undefined"

fun f_ZERO :: "Instruction list \<Rightarrow> Value list \<Rightarrow> int \<Rightarrow> Step" where
  "f_ZERO code sp pc = NEXT (Number 0 # sp) pc"

fun f_ONE :: "Instruction list \<Rightarrow> Value list \<Rightarrow> int \<Rightarrow> Step" where
  "f_ONE code sp pc = NEXT (Number 1 # sp) pc"

fun f_NULL :: "Instruction list \<Rightarrow> Value list \<Rightarrow> int \<Rightarrow> Step" where
  "f_NULL code sp pc = NEXT (Null # sp) pc"

text \<open>\<^verbatim>\<open>BINARY_OP_WORD\<close>: \<^verbatim>\<open>sp[-1] = Value(sp[-1] INFIXOP sp[0]); --sp; NEXT();\<close>\<close>

fun BINARY_OP :: "(Value \<Rightarrow> Value \<Rightarrow> Value option) \<Rightarrow> Instruction list \<Rightarrow> Value list \<Rightarrow> int \<Rightarrow> Step" where
  "BINARY_OP f code (b # a # sp) pc =
     (case f a b of
        Some v \<Rightarrow> NEXT (v # sp) pc
      | None \<Rightarrow> Halt Unmodelled)"
| "BINARY_OP f code sp pc = Halt Undefined"

text \<open>\<^verbatim>\<open>sp[0] = Value(sp[0] OP Value(0)); NEXT();\<close> for the four comparisons with zero.\<close>

fun UNARY_ZERO_OP :: "(Value \<Rightarrow> Value \<Rightarrow> Value option) \<Rightarrow> Instruction list \<Rightarrow> Value list \<Rightarrow> int \<Rightarrow> Step" where
  "UNARY_ZERO_OP f code (a # sp) pc =
     (case f a (Number 0) of
        Some v \<Rightarrow> NEXT (v # sp) pc
      | None \<Rightarrow> Halt Unmodelled)"
| "UNARY_ZERO_OP f code [] pc = Halt Undefined"

fun f_LENGTH :: "Instruction list \<Rightarrow> Value list \<Rightarrow> int \<Rightarrow> Step" where
  "f_LENGTH code (a # sp) pc =
     (case Value_length a of
        Some v \<Rightarrow> NEXT (v # sp) pc
      | None \<Rightarrow> Halt Unmodelled)"
| "f_LENGTH code [] pc = Halt Undefined"

text \<open>The handler that the cell \<open>Native f\<close> holds.\<close>

fun native :: "Opcode \<Rightarrow> Instruction list \<Rightarrow> Value list \<Rightarrow> int \<Rightarrow> Step" where
  "native op_RETURN = f_RETURN"
| "native op_LITERAL = f_LITERAL"
| "native op_INT = f_INT"
| "native op_DUP = f_DUP"
| "native op_DROP = f_DROP"
| "native op_SWAP = f_SWAP"
| "native op_OVER = f_OVER"
| "native op_ROT = f_ROT"
| "native op_NOP = f_NOP"
| "native op_BRANCH = f_BRANCH"
| "native op_ZBRANCH = f_ZBRANCH"
| "native op_ZERO = f_ZERO"
| "native op_ONE = f_ONE"
| "native op_NULL = f_NULL"
| "native op_PLUS = BINARY_OP Value_plus"
| "native op_MINUS = BINARY_OP Value_minus"
| "native op_MULT = BINARY_OP Value_times"
| "native op_DIV = BINARY_OP Value_divide"
| "native op_MOD = BINARY_OP Value_mod"
| "native op_EQ = BINARY_OP Value_eq"
| "native op_NE = BINARY_OP Value_ne"
| "native op_GT = BINARY_OP Value_gt"
| "native op_GE = BINARY_OP Value_ge"
| "native op_LT = BINARY_OP Value_lt"
| "native op_LE = BINARY_OP Value_le"
| "native op_EQ_ZERO = UNARY_ZERO_OP Value_eq"
| "native op_NE_ZERO = UNARY_ZERO_OP Value_ne"
| "native op_GT_ZERO = UNARY_ZERO_OP Value_gt"
| "native op_LT_ZERO = UNARY_ZERO_OP Value_lt"
| "native op_LENGTH = f_LENGTH"
| "native f = (\<lambda>code sp pc. Halt Unmodelled)"

subsection \<open>Dispatch\<close>

text \<open>
  Modelled from the spec: \<^verbatim>\<open>call(sp, start)\<close> and \<^verbatim>\<open>NEXT()\<close> (instruction.hh is not part of
  the sources). \<^verbatim>\<open>NEXT()\<close> dispatches on the handler in the cell at \<^verbatim>\<open>pc\<close> and passes
  it the following cell as its \<^verbatim>\<open>pc\<close>; \<^verbatim>\<open>call\<close> does the same at the first cell of a
  word, and returns what \<^verbatim>\<open>_RETURN\<close> returns. The handler of \<^verbatim>\<open>CALL\<close> is
  \<^verbatim>\<open>sp = call(sp, (pc++)->word); NEXT();\<close>: a recursive call of the interpreter on the
  host stack.

  The loop may run forever, so it takes fuel: one unit per dispatched instruction and
  nesting level. \<open>None\<close> means that the fuel did not suffice.
\<close>

fun run :: "nat \<Rightarrow> Heap \<Rightarrow> Instruction list \<Rightarrow> Value list \<Rightarrow> int \<Rightarrow> Outcome option" where
  "run 0 H code sp pc = None"
| "run (Suc n) H code sp pc =
     (case cell code pc of
        Some (Native f) \<Rightarrow>
          (if f = op_CALL then
             (case cell code (pc + 1) of
                Some (WordPtr a) \<Rightarrow>
                  (if a < length H then
                     (case run n H (H ! a) sp 0 of
                        Some (Returned sp') \<Rightarrow> run n H code sp' (pc + 2)
                      | r \<Rightarrow> r)
                   else Some Undefined)
              | _ \<Rightarrow> Some Undefined)
           else
             (case native f code sp (pc + 1) of
                NEXT sp' pc' \<Rightarrow> run n H code sp' pc'
              | Halt r \<Rightarrow> Some r))
      | _ \<Rightarrow> Some Undefined)"

definition call :: "nat \<Rightarrow> Heap \<Rightarrow> Value list \<Rightarrow> Instruction list \<Rightarrow> Outcome option" where
  "call n H sp start = run n H start sp 0"


section \<open>The compiler (compiler.cc)\<close>

subsection \<open>Errors\<close>

text \<open>
  A \<^verbatim>\<open>compile_error\<close> carries a message and a source position. A failed \<^verbatim>\<open>assert\<close>, an
  access through an invalid iterator or an empty optional (undefined behaviour), and a
  loop that never ends are outcomes of their own, so that none of them is mistaken for a
  compile error.
\<close>

type_synonym SourcePos = "nat option"

datatype Error =
    compile_error string SourcePos
  | assertion_failed
  | undefined_behaviour
  | nontermination

subsection \<open>Word references and source words\<close>

text \<open>
  Modelled from the spec: \<^verbatim>\<open>WordRef\<close>, \<^verbatim>\<open>SourceWord\<close> and its method \<^verbatim>\<open>branchesTo\<close>
  (compiler.hh is not part of the sources). A source word is a word reference with a
  source position, an optional branch target, a pc offset and the flag
  \<^verbatim>\<open>isBranchDestination\<close>; \<^verbatim>\<open>branchesTo\<close> records the target and marks it as a
  destination. The words are kept in a \<^verbatim>\<open>std::list\<close>, and an \<^verbatim>\<open>InstructionPos\<close> is an
  iterator into it: it names a node, and stays valid when other nodes are inserted or
  erased. A node therefore carries an identity \<open>nodeId\<close>, and positions are identities.
  The field \<^verbatim>\<open>pc\<close> is called \<open>pc_offset\<close> here, as in the spec.
\<close>

type_synonym InstructionPos = nat

record WordRef =
  word :: Word
  param :: Instruction

record SourceWord = WordRef +
  nodeId :: InstructionPos
  sourceCode :: SourcePos
  branchTo :: "InstructionPos option"
  pc_offset :: int
  isBranchDestination :: bool

text \<open>\<^verbatim>\<open>WordRef{w}\<close>: a reference without parameter; the parameter cell is zero.\<close>

definition WordRef_of :: "Word \<Rightarrow> WordRef" where
  "WordRef_of w = \<lparr>word = w, param = Offset 0\<rparr>"

definition WordRef_param :: "Word \<Rightarrow> Instruction \<Rightarrow> WordRef" where
  "WordRef_param w p = \<lparr>word = w, param = p\<rparr>"

text \<open>\<^verbatim>\<open>SourceWord(ref, source)\<close>, stored in the node \<open>n\<close>.\<close>

definition SourceWord_of :: "WordRef \<Rightarrow> SourcePos \<Rightarrow> InstructionPos \<Rightarrow> SourceWord" where
  "SourceWord_of r source n =
     \<lparr>word = word r, param = param r, nodeId = n, sourceCode = source,
      branchTo = None, pc_offset = 0, isBranchDestination = False\<rparr>"

definition findNode :: "SourceWord list \<Rightarrow> InstructionPos \<Rightarrow> SourceWord option" where
  "findNode ws n = find (\<lambda>w. nodeId w = n) ws"

definition updateNode ::
  "InstructionPos \<Rightarrow> (SourceWord \<Rightarrow> SourceWord) \<Rightarrow> SourceWord list \<Rightarrow> SourceWord list" where
  "updateNode n f ws = map (\<lambda>w. if nodeId w = n then f w else w) ws"

text \<open>\<^verbatim>\<open>src->branchesTo(dst)\<close>\<close>

definition branchesTo ::
  "InstructionPos \<Rightarrow> InstructionPos \<Rightarrow> SourceWord list \<Rightarrow> Error + SourceWord list" where
  "branchesTo src dst ws =
     (if findNode ws src = None \<or> findNode ws dst = None then Inl undefined_behaviour
      else Inr (updateNode dst (\<lambda>w. w\<lparr>isBranchDestination := True\<rparr>)
                 (updateNode src (\<lambda>w. w\<lparr>branchTo := Some dst\<rparr>) ws)))"

subsection \<open>Compiler state\<close>

text \<open>
  The members of \<^verbatim>\<open>Compiler\<close> that compiler.cc uses. \<open>nextNode\<close> is the identity that the
  next list node gets.
\<close>

record Compiler =
  c_name :: string
  c_flags :: Flags
  c_effect :: StackEffect
  effectCanAddInputs :: bool
  effectCanAddOutputs :: bool
  c_words :: "SourceWord list"
  nextNode :: InstructionPos
  localsTypes :: "TypeSet list"
  usesArgs :: bool
  controlStack :: "(char \<times> InstructionPos) list"
  curToken :: SourcePos

text \<open>\<^verbatim>\<open>Compiler::Compiler()\<close>: the word list holds the placeholder for the next word.\<close>

definition Compiler_new :: Compiler where
  "Compiler_new =
     \<lparr>c_name = [], c_flags = NoFlags, c_effect = StackEffect_empty,
      effectCanAddInputs = True, effectCanAddOutputs = True,
      c_words = [SourceWord_of (WordRef_of NOP) None 0], nextNode = 1,
      localsTypes = [], usesArgs = False, controlStack = [], curToken = None\<rparr>"

text \<open>
  Modelled from the spec: \<^verbatim>\<open>Value::type()\<close>, \<^verbatim>\<open>TypeSet(type)\<close> and \<^verbatim>\<open>StackEffect::addInput\<close>
  (value.hh and stack_effect.hh are not part of the sources). The type of a value is a
  small integer tag, in the order in which the spec lists the variants; the type set of a
  tag holds that one type; \<^verbatim>\<open>addInput\<close> adds one more input to a stack effect.
\<close>

definition Value_type :: "Value \<Rightarrow> nat" where
  "Value_type v = (case v of Null \<Rightarrow> 0 | Number n \<Rightarrow> 1 | String s \<Rightarrow> 2 | Array a \<Rightarrow> 3 | Quote q \<Rightarrow> 4)"

definition TypeSet_of :: "nat \<Rightarrow> TypeSet" where
  "TypeSet_of t = push_bit t 1"

definition addInput :: "TypeSet \<Rightarrow> StackEffect \<Rightarrow> StackEffect" where
  "addInput t e = e\<lparr>inputs := t # inputs e\<rparr>"

text \<open>
  \<^verbatim>\<open>setInputStack(bottom, top)\<close>: the effect becomes the empty effect, with one input for
  each value from \<^verbatim>\<open>bottom\<close> to \<^verbatim>\<open>top\<close> when both pointers are given. The argument of the
  model is \<open>None\<close> for null pointers, and the values from bottom to top otherwise.
\<close>

definition setInputStack :: "Value list option \<Rightarrow> Compiler \<Rightarrow> Compiler" where
  "setInputStack stack c =
     c\<lparr>c_effect := (case stack of
                       None \<Rightarrow> StackEffect_empty
                     | Some vs \<Rightarrow> fold (\<lambda>v. addInput (TypeSet_of (Value_type v))) vs StackEffect_empty),
       effectCanAddInputs := False, effectCanAddOutputs := True\<rparr>"

text \<open>
  \<^verbatim>\<open>add(const WordRef&, const char *source)\<close>: the placeholder at the end becomes the new
  word and keeps its \<^verbatim>\<open>isBranchDestination\<close> flag; a new placeholder is pushed.
\<close>

definition add :: "WordRef \<Rightarrow> SourcePos \<Rightarrow> Compiler \<Rightarrow> Error + (InstructionPos \<times> Compiler)" where
  "add r source c =
     (case c_words c of
        [] \<Rightarrow> Inl undefined_behaviour
      | w # ws \<Rightarrow>
          (let i = last (w # ws);
               isDst = isBranchDestination i;
               i' = (SourceWord_of r source (nodeId i))\<lparr>isBranchDestination := isDst\<rparr>
           in Inr (nodeId i,
                   c\<lparr>c_words := butlast (w # ws) @ [i', SourceWord_of (WordRef_of NOP) None (nextNode c)],
                     nextNode := Suc (nextNode c)\<rparr>)))"

text \<open>
  Modelled from the spec: the disassembler (disassembler.hh is not part of the sources).
  \<^verbatim>\<open>addInline\<close> reads the word references of an interpreted word one by one; the model
  takes \<open>dis\<close>, the function from a word to the sequence of references that
  \<^verbatim>\<open>Disassembler::next()\<close> yields for it. The loop of \<^verbatim>\<open>addInline\<close> ends at the first
  \<^verbatim>\<open>_RETURN\<close>; a sequence without one is read past its end.
\<close>

fun addInline_loop :: "WordRef list \<Rightarrow> SourcePos \<Rightarrow> Compiler \<Rightarrow> Error + Compiler" where
  "addInline_loop [] source c = Inl undefined_behaviour"
| "addInline_loop (r # rs) source c =
     (if word r = RETURN then Inr c
      else (case add r source c of
              Inl e \<Rightarrow> Inl e
            | Inr (i, c') \<Rightarrow> addInline_loop rs source c'))"

definition addInline ::
  "(Word \<Rightarrow> WordRef list) \<Rightarrow> Word \<Rightarrow> SourcePos \<Rightarrow> Compiler \<Rightarrow> Error + (InstructionPos \<times> Compiler)" where
  "addInline dis w source c =
     (if isNative w then add (WordRef_of w) None c
      else (case c_words c of
              [] \<Rightarrow> Inl undefined_behaviour
            | x # xs \<Rightarrow>
                (case addInline_loop (dis w) source c of
                   Inl e \<Rightarrow> Inl e
                 | Inr c' \<Rightarrow> Inr (nodeId (last (x # xs)), c'))))"

text \<open>
  Modelled from the spec: \<^verbatim>\<open>word->parameters()\<close>, which word.hh does not declare. A word
  has one inline parameter when one of the two parameter flags is set, and none otherwise.
\<close>

definition parameters :: "Word \<Rightarrow> nat" where
  "parameters w = (if hasAnyParam w then 1 else 0)"

text \<open>
  \<^verbatim>\<open>add(const Word*, const char *sourcePos)\<close>, the entry point of the parsers. The
  message is built from \<^verbatim>\<open>word->name()\<close>, which is a null pointer for an anonymous word.
  The result is paired with the compiler as the call leaves it, so that what an
  exception leaves behind is part of the model: the check for a magic word comes before
  every change.
\<close>

definition add_word ::
  "(Word \<Rightarrow> WordRef list) \<Rightarrow> Word \<Rightarrow> SourcePos \<Rightarrow> Compiler \<Rightarrow> (Error + InstructionPos) \<times> Compiler" where
  "add_word dis w sourcePos c =
     (if isMagic w then
        (case name w of
           None \<Rightarrow> (Inl undefined_behaviour, c)
         | Some n \<Rightarrow>
             (Inl (compile_error (''Special word '' @ n @ '' cannot be added by parser'') sourcePos), c))
      else if parameters w \<noteq> 0 then (Inl assertion_failed, c)
      else
        (case (if hasFlag w Inline then addInline dis w sourcePos c
               else add (WordRef_of w) sourcePos c) of
           Inl e \<Rightarrow> (Inl e, c)
         | Inr (i, c') \<Rightarrow> (Inr i, c')))"

text \<open>\<^verbatim>\<open>add(const Word*, intptr_t param, const char *sourcePos)\<close>\<close>

definition add_word_param ::
  "Word \<Rightarrow> int \<Rightarrow> SourcePos \<Rightarrow> Compiler \<Rightarrow> Error + (InstructionPos \<times> Compiler)" where
  "add_word_param w p sourcePos c =
     (if parameters w \<noteq> 1 then Inl assertion_failed
      else if hasIntParam w then add (WordRef_param w (Offset p)) sourcePos c
      else add (WordRef_param w (Literal (Number (real_of_int p)))) sourcePos c)"

text \<open>
  Modelled from the spec: \<^verbatim>\<open>canCastToInt16\<close> (utils.hh is not part of the sources): the
  number is integral and lies in the range of a 16-bit signed integer.
\<close>

definition canCastToInt16 :: "real \<Rightarrow> bool" where
  "canCastToInt16 n = (n = real_of_int \<lfloor>n\<rfloor> \<and> - 32768 \<le> n \<and> n \<le> 32767)"

definition addLiteral :: "Value \<Rightarrow> SourcePos \<Rightarrow> Compiler \<Rightarrow> Error + (InstructionPos \<times> Compiler)" where
  "addLiteral v sourcePos c =
     (case v of
        Number n \<Rightarrow>
          (if canCastToInt16 n then add (WordRef_param INT_word (Offset \<lfloor>n\<rfloor>)) sourcePos c
           else add (WordRef_param LITERAL (Literal v)) sourcePos c)
      | _ \<Rightarrow> add (WordRef_param LITERAL (Literal v)) sourcePos c)"

definition addGetArg :: "int \<Rightarrow> SourcePos \<Rightarrow> Compiler \<Rightarrow> Error + (InstructionPos \<times> Compiler)" where
  "addGetArg stackOffset sourcePos c =
     (if \<not> (stackOffset \<ge> 1 - int (inputCount (c_effect c))) then Inl assertion_failed
      else if \<not> (stackOffset \<le> int (length (localsTypes c))) then Inl assertion_failed
      else add (WordRef_param GETARG (Offset stackOffset)) sourcePos (c\<lparr>usesArgs := True\<rparr>))"

definition addSetArg :: "int \<Rightarrow> SourcePos \<Rightarrow> Compiler \<Rightarrow> Error + (InstructionPos \<times> Compiler)" where
  "addSetArg stackOffset sourcePos c = add (WordRef_param SETARG (Offset stackOffset)) sourcePos c"

text \<open>
  \<^verbatim>\<open>reserveLocalVariable\<close>: the \<^verbatim>\<open>_LOCALS\<close> instruction at the head of the list is found, or
  inserted in a new node before the first word; its parameter becomes the number of
  locals.
\<close>

definition reserveLocalVariable :: "TypeSet \<Rightarrow> Compiler \<Rightarrow> int \<times> Compiler" where
  "reserveLocalVariable t c =
     (let found = (case c_words c of [] \<Rightarrow> False | w # ws \<Rightarrow> word w = LOCALS);
          ws1 = (if found then c_words c
                 else SourceWord_of (WordRef_param LOCALS (Offset 0)) None (nextNode c) # c_words c);
          n1 = (if found then nextNode c else Suc (nextNode c));
          lt = localsTypes c @ [t];
          off = int (length lt)
      in (off, c\<lparr>c_words := (hd ws1)\<lparr>param := Offset off\<rparr> # tl ws1,
                  nextNode := n1, localsTypes := lt\<rparr>))"


text \<open>\<^verbatim>\<open>add({_BRANCH, intptr_t(-1)})->branchesTo(pos);\<close>\<close>

definition addBranchBackTo :: "InstructionPos \<Rightarrow> Compiler \<Rightarrow> Error + Compiler" where
  "addBranchBackTo pos c =
     (case add (WordRef_param BRANCH (Offset (- 1))) None c of
        Inl e \<Rightarrow> Inl e
      | Inr (i, c') \<Rightarrow>
          (case branchesTo i pos (c_words c') of
             Inl e \<Rightarrow> Inl e
           | Inr ws' \<Rightarrow> Inr (c'\<lparr>c_words := ws'\<rparr>)))"

text \<open>\<^verbatim>\<open>src->branchesTo(prev(_words.end()));\<close>\<close>

definition fixBranch :: "InstructionPos \<Rightarrow> Compiler \<Rightarrow> Error + Compiler" where
  "fixBranch src c =
     (case c_words c of
        [] \<Rightarrow> Inl undefined_behaviour
      | w # ws \<Rightarrow>
          (case branchesTo src (nodeId (last (w # ws))) (c_words c) of
             Inl e \<Rightarrow> Inl e
           | Inr ws' \<Rightarrow> Inr (c\<lparr>c_words := ws'\<rparr>)))"

text \<open>
  \<^verbatim>\<open>pushBranch\<close> adds a branch instruction (unless \<^verbatim>\<open>branch\<close> is null) and pushes its
  position on the control-flow stack; without a branch it pushes the position of the
  placeholder, which is where the next word will stand.
\<close>

definition pushBranch :: "char \<Rightarrow> Word option \<Rightarrow> Compiler \<Rightarrow> Error + Compiler" where
  "pushBranch identifier branch c =
     (case branch of
        Some b \<Rightarrow>
          (case add (WordRef_param b (Offset (- 1))) (curToken c) c of
             Inl e \<Rightarrow> Inl e
           | Inr (branchRef, c') \<Rightarrow>
               Inr (c'\<lparr>controlStack := controlStack c' @ [(identifier, branchRef)]\<rparr>))
      | None \<Rightarrow>
          (case c_words c of
             [] \<Rightarrow> Inl undefined_behaviour
           | w # ws \<Rightarrow>
               Inr (c\<lparr>controlStack := controlStack c @ [(identifier, nodeId (last (w # ws)))]\<rparr>)))"

text \<open>
  \<^verbatim>\<open>popBranch\<close> pops the control-flow stack when the identifier on top occurs in
  \<^verbatim>\<open>matching\<close>. \<^verbatim>\<open>strchr\<close> also finds the terminating zero of the string.
\<close>

definition strchr :: "string \<Rightarrow> char \<Rightarrow> bool" where
  "strchr str ch = (ch \<in> set str \<or> ch = char_of (0 :: nat))"

definition popBranch :: "string \<Rightarrow> Compiler \<Rightarrow> Error + (InstructionPos \<times> Compiler)" where
  "popBranch matching c =
     (if controlStack c \<noteq> [] \<and> strchr matching (fst (last (controlStack c)))
      then Inr (snd (last (controlStack c)), c\<lparr>controlStack := butlast (controlStack c)\<rparr>)
      else Inl (compile_error ''no matching IF or WHILE'' (curToken c)))"

subsection \<open>Code generation\<close>

text \<open>
  \<^verbatim>\<open>returnsImmediately(pos)\<close>: true if the instruction is a \<^verbatim>\<open>_RETURN\<close>, or a \<^verbatim>\<open>_BRANCH\<close> to
  an instruction that returns immediately. The recursion follows branch targets and does
  not end on a cycle of branches; it takes fuel. A walk of more steps than the list has
  nodes has met a node twice, so with that much fuel \<open>nontermination\<close> is reported only
  for a walk that never ends.
\<close>

fun returnsImmediately :: "nat \<Rightarrow> SourceWord list \<Rightarrow> SourceWord \<Rightarrow> Error + bool" where
  "returnsImmediately 0 ws w = Inl nontermination"
| "returnsImmediately (Suc n) ws w =
     (if word w = BRANCH then
        (case branchTo w of
           None \<Rightarrow> Inl undefined_behaviour
         | Some d \<Rightarrow>
             (case findNode ws d of
                None \<Rightarrow> Inl undefined_behaviour
              | Some w' \<Rightarrow> returnsImmediately n ws w'))
      else Inr (word w = RETURN))"

text \<open>\<^verbatim>\<open>while ((*dst)->word == &_BRANCH) dst = (*dst)->branchTo;\<close>, with fuel as above.\<close>

fun followBranches :: "nat \<Rightarrow> SourceWord list \<Rightarrow> InstructionPos \<Rightarrow> Error + InstructionPos" where
  "followBranches 0 ws dst = Inl nontermination"
| "followBranches (Suc n) ws dst =
     (case findNode ws dst of
        None \<Rightarrow> Inl undefined_behaviour
      | Some w \<Rightarrow>
          (if word w = BRANCH then
             (case branchTo w of
                None \<Rightarrow> Inl undefined_behaviour
              | Some d \<Rightarrow> followBranches n ws d)
           else Inr dst))"





text \<open>
  Modelled from the spec: the assembler (assembler.hh is not part of the sources). For a
  word it emits the opcode, followed by the inline parameter when the word has one; an
  interpreted word is emitted as \<^verbatim>\<open>CALL\<close> followed by the address of its instructions. The
  spec encodes the opcode in a byte and the parameter in the bytes after it; the model
  keeps one element of the stream for the opcode and one for the whole parameter, as the
  instruction arrays of core_words.cc do, so \<^verbatim>\<open>codeSize()\<close> and the pc offsets count
  elements of the stream and not bytes.
\<close>

definition Assembler_add :: "Word \<Rightarrow> Instruction \<Rightarrow> Instruction list" where
  "Assembler_add w p =
     (if isNative w then (if hasAnyParam w then [instr w, p] else [instr w])
      else [instr CALL, instr w])"

text \<open>
  The first part of \<^verbatim>\<open>generateInstructions\<close>: if the word uses its arguments or has locals,
  a \<^verbatim>\<open>_DROPARGS\<close> is added, unless the count of slots to drop is zero as an unsigned byte.
\<close>

definition dropArgsEpilogue :: "Compiler \<Rightarrow> Error + Compiler" where
  "dropArgsEpilogue c =
     (if usesArgs c \<or> localsTypes c \<noteq> [] then
        (let locals = (of_nat (inputCount (c_effect c) + length (localsTypes c)) :: 8 word);
             results = (of_nat (outputCount (c_effect c)) :: 8 word)
         in if locals > 0 then
              (case add (WordRef_param DROPARGS (DropCount locals results)) None c of
                 Inl e \<Rightarrow> Inl e
               | Inr (i, c') \<Rightarrow> Inr c')
            else Inr c)
      else Inr c)"

text \<open>
  \<^verbatim>\<open>assert(_words.back().word == &NOP); _words.back() = {_RETURN};\<close> The assignment stores
  a new source word in the last node: unlike \<^verbatim>\<open>add\<close>, it does not keep the flag
  \<^verbatim>\<open>isBranchDestination\<close> of the placeholder.
\<close>

definition addReturn :: "Compiler \<Rightarrow> Error + Compiler" where
  "addReturn c =
     (case c_words c of
        [] \<Rightarrow> Inl undefined_behaviour
      | w # ws \<Rightarrow>
          (if word (last (w # ws)) \<noteq> NOP then Inl assertion_failed
           else Inr (c\<lparr>c_words := butlast (w # ws)
                        @ [SourceWord_of (WordRef_of RETURN) None (nodeId (last (w # ws)))]\<rparr>)))"

text \<open>
  The body of the loop that assigns pc offsets, for a word that is kept: tail recursion
  is detected, then the chain of branches is followed. \<open>front\<close> are the nodes in front of
  the iterator, \<open>rest\<close> the nodes behind it.
\<close>

definition detectTailRecursion ::
  "SourceWord list \<Rightarrow> SourceWord \<Rightarrow> SourceWord list \<Rightarrow> Flags \<Rightarrow> Error + (SourceWord \<times> Flags)" where
  "detectTailRecursion front w rest fl =
     (if word w = RECURSE then
        (case rest of
           [] \<Rightarrow> Inl undefined_behaviour
         | nxt # rest' \<Rightarrow>
             (case returnsImmediately (Suc (length (front @ w # rest))) (front @ w # rest) nxt of
                Inl e \<Rightarrow> Inl e
              | Inr r \<Rightarrow> if r then Inr (w\<lparr>word := BRANCH\<rparr>, fl) else Inr (w, fl OR Recursive)))
      else Inr (w, fl))"

definition followChain ::
  "SourceWord list \<Rightarrow> SourceWord \<Rightarrow> SourceWord list \<Rightarrow> Error + SourceWord" where
  "followChain front w rest =
     (case branchTo w of
        None \<Rightarrow> Inr w
      | Some dst \<Rightarrow>
          (case followBranches (Suc (length (front @ w # rest))) (front @ w # rest) dst of
             Inl e \<Rightarrow> Inl e
           | Inr d \<Rightarrow> Inr (w\<lparr>branchTo := Some d\<rparr>)))"

text \<open>
  The loop over \<^verbatim>\<open>_words\<close> that removes unreachable instructions and assigns a pc offset
  to each instruction that is kept. \<open>front\<close> are the nodes in front of the iterator
  \<^verbatim>\<open>i\<close>, the second list starts at \<^verbatim>\<open>i\<close>; \<open>codeSize\<close> is \<^verbatim>\<open>asmblr.codeSize()\<close>.
\<close>

fun assignOffsets ::
  "SourceWord list \<Rightarrow> SourceWord list \<Rightarrow> bool \<Rightarrow> nat \<Rightarrow> Flags \<Rightarrow> Error + (SourceWord list \<times> Flags)" where
  "assignOffsets front [] afterBranch codeSize fl = Inr (front, fl)"
| "assignOffsets front (w # rest) afterBranch codeSize fl =
     (if afterBranch \<and> \<not> isBranchDestination w then
        assignOffsets front rest afterBranch codeSize fl
      else
        (case detectTailRecursion front w rest fl of
           Inl e \<Rightarrow> Inl e
         | Inr (w1, fl1) \<Rightarrow>
             (case followChain front w1 rest of
                Inl e \<Rightarrow> Inl e
              | Inr w2 \<Rightarrow>
                  assignOffsets (front @ [w2\<lparr>pc_offset := int codeSize\<rparr>]) rest
                    (word w2 = BRANCH) (codeSize + length (Assembler_add (word w2) (param w2))) fl1)))"

text \<open>
  The second loop assembles the words; the parameter of a word that branches becomes
  the distance \<^verbatim>\<open>(*i->branchTo)->pc - i->pc - 1\<close>.
\<close>

definition branchParam :: "SourceWord list \<Rightarrow> SourceWord \<Rightarrow> Error + Instruction" where
  "branchParam ws w =
     (case branchTo w of
        None \<Rightarrow> Inr (param w)
      | Some t \<Rightarrow>
          (case findNode ws t of
             None \<Rightarrow> Inl undefined_behaviour
           | Some tw \<Rightarrow> Inr (Offset (pc_offset tw - pc_offset w - 1))))"

fun assemble :: "SourceWord list \<Rightarrow> SourceWord list \<Rightarrow> Error + Instruction list" where
  "assemble ws [] = Inr []"
| "assemble ws (w # rest) =
     (case branchParam ws w of
        Inl e \<Rightarrow> Inl e
      | Inr p \<Rightarrow>
          (case assemble ws rest of
             Inl e \<Rightarrow> Inl e
           | Inr code \<Rightarrow> Inr (Assembler_add (word w) p @ code)))"

text \<open>
  Modelled from the spec: \<^verbatim>\<open>computeEffect()\<close>, the stack checker (compiler+stackcheck.hh
  is not part of the sources). It either throws a compile error or yields the effect of
  the word. \<^verbatim>\<open>generateInstructions\<close> takes it as the parameter \<open>computeEffect\<close>.

  \<^verbatim>\<open>generateInstructions\<close> returns the instructions; the compiler's flags and effect are
  valid after it, so the model returns the compiler as well.
\<close>

definition generateInstructions ::
  "(Compiler \<Rightarrow> Error + StackEffect) \<Rightarrow> Compiler \<Rightarrow> Error + (Instruction list \<times> Compiler)" where
  "generateInstructions computeEffect c =
     (if controlStack c \<noteq> [] then
        Inl (compile_error ''Unfinished IF-ELSE-THEN or BEGIN-WHILE-REPEAT)'' None)
      else
        (case dropArgsEpilogue c of
           Inl e \<Rightarrow> Inl e
         | Inr c1 \<Rightarrow>
             (case addReturn c1 of
                Inl e \<Rightarrow> Inl e
              | Inr c2 \<Rightarrow>
                  (case computeEffect c2 of
                     Inl e \<Rightarrow> Inl e
                   | Inr eff \<Rightarrow>
                       (case assignOffsets [] (c_words c2) False 0 (c_flags c2) of
                          Inl e \<Rightarrow> Inl e
                        | Inr (ws, fl) \<Rightarrow>
                            (case assemble ws ws of
                               Inl e \<Rightarrow> Inl e
                             | Inr code \<Rightarrow>
                                 Inr (code, c2\<lparr>c_effect := eff, c_words := ws, c_flags := fl\<rparr>)))))))"


text \<open>
  For the comparison of the dead-code pass with its absence: the same loop and the same
  \<^verbatim>\<open>generateInstructions\<close>, where no instruction is ever erased. These two definitions are
  not code of the repository.
\<close>

fun assignOffsets_keeping_dead_code ::
  "SourceWord list \<Rightarrow> SourceWord list \<Rightarrow> nat \<Rightarrow> Flags \<Rightarrow> Error + (SourceWord list \<times> Flags)" where
  "assignOffsets_keeping_dead_code front [] codeSize fl = Inr (front, fl)"
| "assignOffsets_keeping_dead_code front (w # rest) codeSize fl =
     (case detectTailRecursion front w rest fl of
        Inl e \<Rightarrow> Inl e
      | Inr (w1, fl1) \<Rightarrow>
          (case followChain front w1 rest of
             Inl e \<Rightarrow> Inl e
           | Inr w2 \<Rightarrow>
               assignOffsets_keeping_dead_code (front @ [w2\<lparr>pc_offset := int codeSize\<rparr>]) rest
                 (codeSize + length (Assembler_add (word w2) (param w2))) fl1))"

definition generateInstructions_keeping_dead_code ::
  "(Compiler \<Rightarrow> Error + StackEffect) \<Rightarrow> Compiler \<Rightarrow> Error + (Instruction list \<times> Compiler)" where
  "generateInstructions_keeping_dead_code computeEffect c =
     (if controlStack c \<noteq> [] then
        Inl (compile_error ''Unfinished IF-ELSE-THEN or BEGIN-WHILE-REPEAT)'' None)
      else
        (case dropArgsEpilogue c of
           Inl e \<Rightarrow> Inl e
         | Inr c1 \<Rightarrow>
             (case addReturn c1 of
                Inl e \<Rightarrow> Inl e
              | Inr c2 \<Rightarrow>
                  (case computeEffect c2 of
                     Inl e \<Rightarrow> Inl e
                   | Inr eff \<Rightarrow>
                       (case assignOffsets_keeping_dead_code [] (c_words c2) 0 (c_flags c2) of
                          Inl e \<Rightarrow> Inl e
                        | Inr (ws, fl) \<Rightarrow>
                            (case assemble ws ws of
                               Inl e \<Rightarrow> Inl e
                             | Inr code \<Rightarrow>
                                 Inr (code, c2\<lparr>c_effect := eff, c_words := ws, c_flags := fl\<rparr>)))))))"

subsection \<open>Compiled words and the vocabulary\<close>

text \<open>
  Modelled from the spec: the vocabulary (vocabulary.hh declares \<^verbatim>\<open>add\<close> and \<^verbatim>\<open>lookup\<close>;
  their bodies and \<^verbatim>\<open>VocabularyStack\<close> are not part of the sources). A vocabulary maps a
  name to a word; there is the core vocabulary, filled with \<^verbatim>\<open>kWords\<close> at startup, and the
  current vocabulary, where new words are installed. The program state that the
  constructors of \<^verbatim>\<open>CompiledWord\<close> touch is the pair of vocabularies and the heap of
  instruction buffers.
\<close>

type_synonym Vocabulary = "string \<rightharpoonup> Word"

definition Vocabulary_add :: "Word \<Rightarrow> Vocabulary \<Rightarrow> Vocabulary" where
  "Vocabulary_add w v = (case name w of None \<Rightarrow> v | Some n \<Rightarrow> v(n \<mapsto> w))"

definition Vocabulary_of :: "Word list \<Rightarrow> Vocabulary" where
  "Vocabulary_of ws = fold Vocabulary_add ws Map.empty"

record Runtime =
  coreVocabulary :: Vocabulary
  currentVocabulary :: Vocabulary
  heap :: Heap

definition Runtime_init :: Runtime where
  "Runtime_init = \<lparr>coreVocabulary = Vocabulary_of kWords, currentVocabulary = Map.empty, heap = rom\<rparr>"

text \<open>
  Modelled from the spec: \<^verbatim>\<open>toupper\<close> on strings (utils.hh is not part of the sources),
  which folds the letters a to z to upper case.
\<close>

definition toupper_char :: "char \<Rightarrow> char" where
  "toupper_char ch =
     (let n = (of_char ch :: nat) in if 97 \<le> n \<and> n \<le> 122 then char_of (n - 32) else ch)"

definition toupper :: "string \<Rightarrow> string" where
  "toupper str = map toupper_char str"

record CompiledWord = Word +
  nameStr :: string
  instrs :: "Instruction list"

text \<open>
  \<^verbatim>\<open>CompiledWord(string &&name, StackEffect effect, vector<Opcode> &&instrs)\<close>: the word
  points to its own buffer, which gets a new address; a word with a name is added to the
  current vocabulary. \<^verbatim>\<open>_instrs.front()\<close> of an empty buffer is undefined.
\<close>

definition CompiledWord_of ::
  "string \<Rightarrow> StackEffect \<Rightarrow> Instruction list \<Rightarrow> Runtime \<Rightarrow> Error + (CompiledWord \<times> Runtime)" where
  "CompiledWord_of nm eff code rt =
     (if code = [] then Inl undefined_behaviour
      else
        (let cw = \<lparr>instr = WordPtr (length (heap rt)),
                   name = (if toupper nm \<noteq> [] then Some (toupper nm) else None),
                   effect = eff, flags = NoFlags,
                   nameStr = toupper nm, instrs = code\<rparr>;
             rt1 = rt\<lparr>heap := heap rt @ [code]\<rparr>
         in Inr (cw, if toupper nm \<noteq> []
                     then rt1\<lparr>currentVocabulary := Vocabulary_add (Word.truncate cw) (currentVocabulary rt1)\<rparr>
                     else rt1)))"

text \<open>
  The vocabulary keeps a pointer to the word object (\<^verbatim>\<open>const Word*\<close>), so an assignment to a
  member of the object after it was added is seen through the vocabulary: the entry of a
  named word is the word as it now is.
\<close>

definition Vocabulary_sees :: "CompiledWord \<Rightarrow> Runtime \<Rightarrow> Runtime" where
  "Vocabulary_sees cw rt =
     (case name cw of
        None \<Rightarrow> rt
      | Some n \<Rightarrow> rt\<lparr>currentVocabulary := (currentVocabulary rt)(n \<mapsto> Word.truncate cw)\<rparr>)"

text \<open>
  \<^verbatim>\<open>CompiledWord(Compiler &&compiler)\<close>, which \<^verbatim>\<open>finish()\<close> calls. It delegates to the
  constructor above with the argument \<^verbatim>\<open>compiler.generateInstructions()\<close>, which is
  evaluated before the delegated constructor runs; an error thrown there leaves the
  constructor at once. The body then sets the flags and the effect of the word, which is
  already in the vocabulary. The result is paired with the program state afterwards.
\<close>

definition finish ::
  "(Compiler \<Rightarrow> Error + StackEffect) \<Rightarrow> Compiler \<Rightarrow> Runtime \<Rightarrow> (Error + CompiledWord) \<times> Runtime" where
  "finish computeEffect c rt =
     (case generateInstructions computeEffect c of
        Inl e \<Rightarrow> (Inl e, rt)
      | Inr (code, c') \<Rightarrow>
          (case CompiledWord_of (c_name c') StackEffect_empty code rt of
             Inl e \<Rightarrow> (Inl e, rt)
           | Inr (cw, rt') \<Rightarrow>
               (if c_flags c' AND NOT (Inline OR Recursive OR Magic) \<noteq> 0 then (Inl assertion_failed, rt')
                else (Inr (cw\<lparr>flags := c_flags c', effect := c_effect c'\<rparr>),
                      Vocabulary_sees (cw\<lparr>flags := c_flags c', effect := c_effect c'\<rparr>) rt'))))"

text \<open>
  \<^verbatim>\<open>CompiledWord(const CompiledWord &word, std::string &&name)\<close>: a copy under a new name,
  with a buffer of its own.
\<close>

definition CompiledWord_copy ::
  "CompiledWord \<Rightarrow> string \<Rightarrow> Runtime \<Rightarrow> Error + (CompiledWord \<times> Runtime)" where
  "CompiledWord_copy w nm rt =
     (case CompiledWord_of nm (effect w) (instrs w) rt of
        Inl e \<Rightarrow> Inl e
      | Inr (cw, rt') \<Rightarrow> Inr (cw\<lparr>flags := flags w\<rparr>, Vocabulary_sees (cw\<lparr>flags := flags w\<rparr>) rt'))"

text \<open>\<^verbatim>\<open>Compiler::compile(std::initializer_list<WordRef> words)\<close>\<close>

fun add_all :: "WordRef list \<Rightarrow> Compiler \<Rightarrow> Error + Compiler" where
  "add_all [] c = Inr c"
| "add_all (r # rs) c =
     (case add r None c of
        Inl e \<Rightarrow> Inl e
      | Inr (i, c') \<Rightarrow> add_all rs c')"

definition compile ::
  "(Compiler \<Rightarrow> Error + StackEffect) \<Rightarrow> WordRef list \<Rightarrow> Runtime \<Rightarrow> (Error + CompiledWord) \<times> Runtime" where
  "compile computeEffect rs rt =
     (case add_all rs Compiler_new of
        Inl e \<Rightarrow> (Inl e, rt)
      | Inr c \<Rightarrow> finish computeEffect c rt)"

section \<open>The postfix parser\<close>

text \<open>
  Modelled from the spec: the Forth parser \<^verbatim>\<open>Compiler::parse\<close>, which is not part of the
  sources. Tokens are separated by white space. An integer becomes a literal; \<^verbatim>\<open>IF\<close>,
  \<^verbatim>\<open>ELSE\<close> and \<^verbatim>\<open>THEN\<close> emit \<^verbatim>\<open>_ZBRANCH\<close> and \<^verbatim>\<open>_BRANCH\<close> and use the control-flow stack with
  the tags \<open>i\<close> and \<open>e\<close>; \<^verbatim>\<open>BEGIN\<close>, \<^verbatim>\<open>WHILE\<close> and \<^verbatim>\<open>REPEAT\<close> use the tags \<open>b\<close> and \<open>w\<close>; any
  other identifier is looked up in the vocabulary and added, or is an error. Strings,
  arrays, quotes and decimal numbers are left out.
\<close>

fun tokens_from :: "string \<Rightarrow> string \<Rightarrow> string list" where
  "tokens_from cur [] = (if cur = [] then [] else [cur])"
| "tokens_from cur (ch # rest) =
     (if ch = CHR '' '' then (if cur = [] then tokens_from [] rest else cur # tokens_from [] rest)
      else tokens_from (cur @ [ch]) rest)"

definition tokenize :: "string \<Rightarrow> string list" where
  "tokenize src = tokens_from [] src"

definition digit :: "char \<Rightarrow> int option" where
  "digit ch =
     (if ch = CHR ''0'' then Some 0 else if ch = CHR ''1'' then Some 1
      else if ch = CHR ''2'' then Some 2 else if ch = CHR ''3'' then Some 3
      else if ch = CHR ''4'' then Some 4 else if ch = CHR ''5'' then Some 5
      else if ch = CHR ''6'' then Some 6 else if ch = CHR ''7'' then Some 7
      else if ch = CHR ''8'' then Some 8 else if ch = CHR ''9'' then Some 9
      else None)"

fun digits_value :: "int \<Rightarrow> string \<Rightarrow> int option" where
  "digits_value acc [] = Some acc"
| "digits_value acc (ch # rest) =
     (case digit ch of None \<Rightarrow> None | Some d \<Rightarrow> digits_value (10 * acc + d) rest)"

definition integer_token :: "string \<Rightarrow> int option" where
  "integer_token tok =
     (case tok of
        [] \<Rightarrow> None
      | ch # rest \<Rightarrow>
          (if ch = CHR ''-'' then (if rest = [] then None else map_option uminus (digits_value 0 rest))
           else digits_value 0 tok))"

definition parse_token ::
  "(Word \<Rightarrow> WordRef list) \<Rightarrow> Vocabulary \<Rightarrow> string \<Rightarrow> Compiler \<Rightarrow> Error + Compiler" where
  "parse_token dis vocab tok c =
     (case integer_token tok of
        Some n \<Rightarrow> map_sum id snd (addLiteral (Number (real_of_int n)) (curToken c) c)
      | None \<Rightarrow>
          (if tok = ''IF'' then pushBranch (CHR ''i'') (Some ZBRANCH) c
           else if tok = ''ELSE'' then
             (case popBranch ''i'' c of
                Inl e \<Rightarrow> Inl e
              | Inr (ifPos, c1) \<Rightarrow>
                  (case pushBranch (CHR ''e'') (Some BRANCH) c1 of
                     Inl e \<Rightarrow> Inl e
                   | Inr c2 \<Rightarrow> fixBranch ifPos c2))
           else if tok = ''THEN'' then
             (case popBranch ''ie'' c of
                Inl e \<Rightarrow> Inl e
              | Inr (ifPos, c1) \<Rightarrow> fixBranch ifPos c1)
           else if tok = ''BEGIN'' then pushBranch (CHR ''b'') None c
           else if tok = ''WHILE'' then pushBranch (CHR ''w'') (Some ZBRANCH) c
           else if tok = ''REPEAT'' then
             (case popBranch ''w'' c of
                Inl e \<Rightarrow> Inl e
              | Inr (whilePos, c1) \<Rightarrow>
                  (case popBranch ''b'' c1 of
                     Inl e \<Rightarrow> Inl e
                   | Inr (beginPos, c2) \<Rightarrow>
                       (case addBranchBackTo beginPos c2 of
                          Inl e \<Rightarrow> Inl e
                        | Inr c3 \<Rightarrow> fixBranch whilePos c3)))
           else
             (case vocab (toupper tok) of
                None \<Rightarrow> Inl (compile_error (''Unknown word '' @ tok) (curToken c))
              | Some w \<Rightarrow>
                  (case add_word dis w (curToken c) c of
                     (Inl e, c') \<Rightarrow> Inl e
                   | (Inr i, c') \<Rightarrow> Inr c'))))"

fun parse_tokens ::
  "(Word \<Rightarrow> WordRef list) \<Rightarrow> Vocabulary \<Rightarrow> string list \<Rightarrow> Compiler \<Rightarrow> Error + Compiler" where
  "parse_tokens dis vocab [] c = Inr c"
| "parse_tokens dis vocab (tok # toks) c =
     (case parse_token dis vocab tok c of
        Inl e \<Rightarrow> Inl e
      | Inr c' \<Rightarrow> parse_tokens dis vocab toks c')"

definition parse ::
  "(Word \<Rightarrow> WordRef list) \<Rightarrow> Vocabulary \<Rightarrow> string \<Rightarrow> Compiler \<Rightarrow> Error + Compiler" where
  "parse dis vocab src c = parse_tokens dis vocab (tokenize src) c"


section \<open>Running a word (test.cc)\<close>

text \<open>
  \<^verbatim>\<open>run(const Word&)\<close> of test.cc: the word must be interpreted, take no inputs and produce
  a result; the stack is sized to the word's \<^verbatim>\<open>max\<close>, and the word is called on the empty
  stack. The C++ function returns the value on top of the stack that \<^verbatim>\<open>call\<close> leaves; the
  model returns the whole outcome, whose stack has that value as its head. The fuel is
  that of the interpreter.
\<close>

definition run_word :: "nat \<Rightarrow> Heap \<Rightarrow> CompiledWord \<Rightarrow> Error + Outcome option" where
  "run_word n H w =
     (if hasFlag (Word.truncate w) Native_flag then Inl assertion_failed
      else if inputCount (effect w) \<noteq> 0 then Inl assertion_failed
      else if \<not> outputCount (effect w) > 0 then Inl assertion_failed
      else if \<not> max_depth (effect w) \<ge> outputCount (effect w) then Inl assertion_failed
      else (case instr w of
              WordPtr a \<Rightarrow> (if a < length H then Inr (call n H [] (H ! a)) else Inl undefined_behaviour)
            | _ \<Rightarrow> Inl undefined_behaviour))"

text \<open>
  \<^verbatim>\<open>_runParser(source)\<close> of test.cc: a new compiler parses the source, \<^verbatim>\<open>finish()\<close> makes the
  word, and the word is run. The words are looked up in the core vocabulary, and no word
  of it is marked \<^verbatim>\<open>Inline\<close>, so the disassembler is never asked.
\<close>

definition runParser ::
  "(Compiler \<Rightarrow> Error + StackEffect) \<Rightarrow> nat \<Rightarrow> string \<Rightarrow> Error + Outcome option" where
  "runParser computeEffect n src =
     (case parse (\<lambda>w. []) (coreVocabulary Runtime_init) src Compiler_new of
        Inl e \<Rightarrow> Inl e
      | Inr c \<Rightarrow>
          (case finish computeEffect c Runtime_init of
             (Inl e, rt) \<Rightarrow> Inl e
           | (Inr w, rt) \<Rightarrow> run_word n (heap rt) w))"

text \<open>
  The first two steps of \<^verbatim>\<open>_runParser\<close> alone, from any program state: what parsing and
  \<^verbatim>\<open>finish()\<close> return, and the program state that they leave behind. Words are looked up
  in the current vocabulary first, then in the core vocabulary.
\<close>

definition lookupWord :: "Runtime \<Rightarrow> Vocabulary" where
  "lookupWord rt n = (case currentVocabulary rt n of Some w \<Rightarrow> Some w | None \<Rightarrow> coreVocabulary rt n)"

definition parse_and_finish ::
  "(Compiler \<Rightarrow> Error + StackEffect) \<Rightarrow> string \<Rightarrow> Runtime \<Rightarrow> (Error + CompiledWord) \<times> Runtime" where
  "parse_and_finish computeEffect src rt =
     (case parse (\<lambda>w. []) (lookupWord rt) src Compiler_new of
        Inl e \<Rightarrow> (Inl e, rt)
      | Inr c \<Rightarrow> finish computeEffect c rt)"

text \<open>
  The same with \<^verbatim>\<open>generateInstructions\<close> replaced by the variant that keeps dead code,
  for the comparison of the two.
\<close>

definition finish_keeping_dead_code ::
  "(Compiler \<Rightarrow> Error + StackEffect) \<Rightarrow> Compiler \<Rightarrow> Runtime \<Rightarrow> (Error + CompiledWord) \<times> Runtime" where
  "finish_keeping_dead_code computeEffect c rt =
     (case generateInstructions_keeping_dead_code computeEffect c of
        Inl e \<Rightarrow> (Inl e, rt)
      | Inr (code, c') \<Rightarrow>
          (case CompiledWord_of (c_name c') StackEffect_empty code rt of
             Inl e \<Rightarrow> (Inl e, rt)
           | Inr (cw, rt') \<Rightarrow>
               (if c_flags c' AND NOT (Inline OR Recursive OR Magic) \<noteq> 0 then (Inl assertion_failed, rt')
                else (Inr (cw\<lparr>flags := c_flags c', effect := c_effect c'\<rparr>),
                      Vocabulary_sees (cw\<lparr>flags := c_flags c', effect := c_effect c'\<rparr>) rt'))))"

definition runParser_keeping_dead_code ::
  "(Compiler \<Rightarrow> Error + StackEffect) \<Rightarrow> nat \<Rightarrow> string \<Rightarrow> Error + Outcome option" where
  "runParser_keeping_dead_code computeEffect n src =
     (case parse (\<lambda>w. []) (coreVocabulary Runtime_init) src Compiler_new of
        Inl e \<Rightarrow> Inl e
      | Inr c \<Rightarrow>
          (case finish_keeping_dead_code computeEffect c Runtime_init of
             (Inl e, rt) \<Rightarrow> Inl e
           | (Inr w, rt) \<Rightarrow> run_word n (heap rt) w))"

text \<open>
  Stack checkers for the examples below: each accepts its word and yields the effect that
  the word has (no inputs, one output, the given peak depth).
\<close>

definition effect_0_1 :: "nat \<Rightarrow> Compiler \<Rightarrow> Error + StackEffect" where
  "effect_0_1 m c = Inr (StackEffect_io 0 1 m)"

text \<open>A compiler that reserves one more local variable of any type.\<close>

definition reserve :: "Compiler \<Rightarrow> Compiler" where
  "reserve c = snd (reserveLocalVariable 0x1F c)"

text \<open>A loop that ends with the word, and a conditional with a return in one branch.\<close>

definition countdown_source :: string where
  "countdown_source = ''1 BEGIN DUP WHILE 1 - REPEAT''"

definition early_return_source :: string where
  "early_return_source = ''7 1 IF RETURN ELSE THEN''"

text \<open>
  The instructions and the source words that \<^verbatim>\<open>generateInstructions\<close> makes of a source
  text.
\<close>

definition generate ::
  "(Compiler \<Rightarrow> Error + StackEffect) \<Rightarrow> string \<Rightarrow> Error + (Instruction list \<times> Compiler)" where
  "generate computeEffect src =
     (case parse (\<lambda>w. []) (coreVocabulary Runtime_init) src Compiler_new of
        Inl e \<Rightarrow> Inl e
      | Inr c \<Rightarrow> generateInstructions computeEffect c)"

definition generate_keeping_dead_code ::
  "(Compiler \<Rightarrow> Error + StackEffect) \<Rightarrow> string \<Rightarrow> Error + (Instruction list \<times> Compiler)" where
  "generate_keeping_dead_code computeEffect src =
     (case parse (\<lambda>w. []) (coreVocabulary Runtime_init) src Compiler_new of
        Inl e \<Rightarrow> Inl e
      | Inr c \<Rightarrow> generateInstructions_keeping_dead_code computeEffect c)"


text \<open>A stack checker that accepts every word, with the effect it has so far.\<close>

definition declaredEffect :: "Compiler \<Rightarrow> Error + StackEffect" where
  "declaredEffect c = Inr (c_effect c)"






text \<open>
  Three more compilers: one with two local variables; one that reads its only argument
  with \<^verbatim>\<open>addGetArg\<close> and whose input stack is then set anew, to no inputs; and one with a
  local variable whose word ends with a branch back to its first instruction.
\<close>

definition two_locals_compiler :: Compiler where
  "two_locals_compiler = reserve (reserve Compiler_new)"

definition unused_argument_compiler :: "Error + Compiler" where
  "unused_argument_compiler =
     (case addGetArg 0 None (setInputStack (Some [Number 1]) Compiler_new) of
        Inl e \<Rightarrow> Inl e
      | Inr (i, c) \<Rightarrow> Inr (setInputStack None c))"

definition local_loop_compiler :: "Error + Compiler" where
  "local_loop_compiler =
     (case add (WordRef_of NOP) None (reserve Compiler_new) of
        Inl e \<Rightarrow> Inl e
      | Inr (i, c) \<Rightarrow> addBranchBackTo i c)"

text \<open>
  An anonymous word flagged \<^verbatim>\<open>Magic\<close>: what \<^verbatim>\<open>CompiledWord(Compiler &&)\<close> makes of a compiler
  without a name whose flags hold \<^verbatim>\<open>Magic\<close> (the assertion of the constructor admits the
  flag). Its \<^verbatim>\<open>name()\<close> is the null pointer.
\<close>

definition anonymous_magic_word :: Word where
  "anonymous_magic_word =
     \<lparr>instr = WordPtr (length rom), name = None, effect = StackEffect_empty, flags = Magic\<rparr>"

section \<open>Properties of words\<close>

lemma native_bits_inject: "(native_bits i = native_bits j) = (i = j)"
  by (cases i; cases j) simp_all

text \<open>
  Claim C10. Equality on words compares only the instruction payload: two words are
  equal exactly when the \<^verbatim>\<open>native\<close> readings of their instructions are equal, which is
  when the instructions are the same cell. Name, stack effect and flags play no part:
  changing them on either side does not change the result, two native words with the
  same handler are equal whatever their names, effects and flags are, and so are two
  interpreted words that point to the same instruction array. \<^verbatim>\<open>operator!=\<close> is the
  negation.
\<close>

theorem word_eq_compares_payload_only:
  "word_eq a b = (native_bits (instr a) = native_bits (instr b))
   \<and> word_eq a b = (instr a = instr b)
   \<and> word_ne a b = (\<not> word_eq a b)
   \<and> word_eq (a\<lparr>name := n, effect := e, flags := f\<rparr>) b = word_eq a b
   \<and> word_eq a (b\<lparr>name := n, effect := e, flags := f\<rparr>) = word_eq a b
   \<and> word_eq (Word_native n1 h e1 f1) (Word_native n2 h e2 f2)
   \<and> word_eq (Word_interp n1 e1 p) (Word_interp n2 e2 p)"
  by (simp add: word_eq_def word_ne_def native_bits_inject Word_native_def Word_interp_def)

section \<open>The magic-word check\<close>

lemma add_not_compile_error: "add r source c \<noteq> Inl (compile_error m p)"
  by (simp add: add_def Let_def split: list.split)

lemma addInline_loop_not_compile_error:
  "addInline_loop rs source c \<noteq> Inl (compile_error m p)"
proof (induction rs arbitrary: c)
  case Nil
  show ?case by simp
next
  case (Cons r rs)
  show ?case
  proof (cases "add r source c")
    case (Inl e)
    with add_not_compile_error [of r source c m p] show ?thesis by auto
  next
    case (Inr x)
    then show ?thesis using Cons.IH by (cases x) auto
  qed
qed

lemma addInline_not_compile_error: "addInline dis w source c \<noteq> Inl (compile_error m p)"
  using add_not_compile_error addInline_loop_not_compile_error [of "dis w" source c m p]
  by (auto simp: addInline_def split: list.split sum.split)

lemma magic_words:
  "isMagic BRANCH" "isMagic ZBRANCH" "isMagic LITERAL" "isMagic CALL"
  "\<not> isMagic DUP" "\<not> isMagic RETURN"
  by (simp_all add: isMagic_def hasFlag_def BRANCH_def ZBRANCH_def LITERAL_def CALL_def DUP_def
      RETURN_def Word_native_def Magic_def HasIntParam_def HasValParam_def Native_flag_def)

text \<open>
  Claim C9, amended. For every word marked Magic that has a name, the parser-facing
  \<^verbatim>\<open>Compiler::add(const Word*)\<close> throws the compile error "Special word NAME cannot be
  added by parser" at the given source position, and leaves the compiler as it was: no
  entry is appended to the word list. A word that is not Magic is never answered with a
  compile error by this function. \<^verbatim>\<open>BRANCH\<close>, \<^verbatim>\<open>0BRANCH\<close>, \<^verbatim>\<open>LITERAL\<close> and \<^verbatim>\<open>CALL\<close> are
  magic (lemma \<open>magic_words\<close>).
\<close>

theorem add_word_rejects_magic:
  "(isMagic w \<longrightarrow> (\<forall>n. name w = Some n \<longrightarrow>
      add_word dis w sourcePos c =
        (Inl (compile_error (''Special word '' @ n @ '' cannot be added by parser'') sourcePos), c)))
   \<and> (\<not> isMagic w \<longrightarrow> (\<forall>m p. fst (add_word dis w sourcePos c) \<noteq> Inl (compile_error m p)))"
proof (intro conjI impI allI)
  fix n assume "isMagic w" "name w = Some n"
  then show "add_word dis w sourcePos c =
        (Inl (compile_error (''Special word '' @ n @ '' cannot be added by parser'') sourcePos), c)"
    by (simp add: add_word_def)
next
  fix m p assume nm: "\<not> isMagic w"
  show "fst (add_word dis w sourcePos c) \<noteq> Inl (compile_error m p)"
  proof (cases "parameters w \<noteq> 0")
    case True
    with nm show ?thesis by (simp add: add_word_def)
  next
    case False
    show ?thesis
    proof (cases "hasFlag w Inline")
      case True
      with nm False addInline_not_compile_error [of dis w sourcePos c m p] show ?thesis
        by (auto simp: add_word_def split: sum.split)
    next
      case F2: False
      with nm False add_not_compile_error [of "WordRef_of w" sourcePos c m p] show ?thesis
        by (auto simp: add_word_def split: sum.split)
    qed
  qed
qed

theorem add_word_rejects_magic_witness:
  "add_word (\<lambda>w. []) BRANCH None Compiler_new =
     (Inl (compile_error ''Special word BRANCH cannot be added by parser'' None), Compiler_new)
   \<and> fst (add_word (\<lambda>w. []) DUP None Compiler_new)
       \<noteq> Inl (compile_error ''Special word DUP cannot be added by parser'' None)
   \<and> c_words (snd (add_word (\<lambda>w. []) BRANCH None Compiler_new)) = c_words Compiler_new"
  using add_word_rejects_magic [of BRANCH "\<lambda>w. []" None Compiler_new]
        add_word_rejects_magic [of DUP "\<lambda>w. []" None Compiler_new] magic_words
  by (simp add: BRANCH_def Word_native_def)


text \<open>
  The claim as it is written, for every word marked Magic, fails for a Magic word without
  a name: the message is built from \<^verbatim>\<open>string(word->name())\<close>, the name is the null pointer,
  and the call does not end with a compile error that names the word.
\<close>

theorem add_word_rejects_magic_counterexample:
  "isMagic anonymous_magic_word
   \<and> name anonymous_magic_word = None
   \<and> add_word (\<lambda>w. []) anonymous_magic_word None Compiler_new = (Inl undefined_behaviour, Compiler_new)"
  by (simp add: add_word_def anonymous_magic_word_def isMagic_def hasFlag_def Magic_def)

section \<open>The interpreter\<close>

text \<open>
  Claim C2. At a \<^verbatim>\<open>_ZBRANCH off\<close> instruction, that is with the handler in cell \<open>s\<close> and the
  offset in the cell after it, and a value \<open>v\<close> on top of the stack: the handler pops
  \<open>v\<close>; if \<open>v\<close> is falsy it advances \<open>pc\<close> by \<open>off\<close>, and in either case it then steps over
  the parameter. So execution continues with the stack below \<open>v\<close>, at the instruction
  after the parameter when \<open>v\<close> is truthy, and \<open>off\<close> cells further when it is falsy.
\<close>

theorem ZBRANCH_semantics:
  "cell code s = Some (Native op_ZBRANCH) \<longrightarrow> cell code (s + 1) = Some (Offset off) \<longrightarrow>
     f_ZBRANCH code (v # sp) (s + 1) = NEXT sp ((if falsy v then (s + 1) + off else s + 1) + 1)
     \<and> run (Suc n) H code (v # sp) s = run n H code sp (if falsy v then s + 2 + off else s + 2)"
  by (simp add: algebra_simps)

theorem ZBRANCH_semantics_witness:
  "f_ZBRANCH i_ABS [Number 0, Number 5] 3 = NEXT [Number 5] 7
   \<and> f_ZBRANCH i_ABS [Number 1, Number (- 5)] 3 = NEXT [Number (- 5)] 4
   \<and> run (Suc 2) rom i_ABS [Number 0, Number 5] 2 = run 2 rom i_ABS [Number 5] 7
   \<and> run (Suc 2) rom i_ABS [Number 1, Number (- 5)] 2 = run 2 rom i_ABS [Number (- 5)] 4"
proof -
  have c2: "cell i_ABS 2 = Some (Native op_ZBRANCH)"
    by (simp add: cell_def i_ABS_def INTERP_array_def ZBRANCH_def Word_native_def)
  have c3: "cell i_ABS (2 + 1) = Some (Offset 3)"
    by (simp add: cell_def i_ABS_def INTERP_array_def)
  show ?thesis
    using ZBRANCH_semantics [of i_ABS 2 3 "Number 0" "[Number 5]" 2 rom]
          ZBRANCH_semantics [of i_ABS 2 3 "Number 1" "[Number (- 5)]" 2 rom] c2 c3
    by simp
qed

text \<open>
  The interpreter agrees with test.cc on the words that core_words.cc assembles by hand:
  \<^verbatim>\<open>-1234 ABS\<close> and \<^verbatim>\<open>1234 ABS\<close> are 1234, \<^verbatim>\<open>3 4 MAX\<close> and \<^verbatim>\<open>4 3 MAX\<close> are 4. In these
  arrays a branch offset is the distance from the cell after the parameter to the target.
\<close>

lemma hand_assembled_words:
  "call 20 rom [Number (- 1234)] i_ABS = Some (Returned [Number 1234])"
  "call 20 rom [Number 1234] i_ABS = Some (Returned [Number 1234])"
  "call 20 rom [Number 4, Number 3] i_MAX = Some (Returned [Number 4])"
  "call 20 rom [Number 3, Number 4] i_MAX = Some (Returned [Number 4])"
  by code_simp+

text \<open>More fuel does not change a result, so a result does not depend on the fuel.\<close>

lemma run_mono: "run n H code sp pc = Some r \<Longrightarrow> run (n + k) H code sp pc = Some r"
proof (induction n arbitrary: code sp pc r)
  case 0
  then show ?case by simp
next
  case (Suc n)
  show ?case
  proof (cases "cell code pc")
    case None
    with Suc.prems show ?thesis by simp
  next
    case (Some i)
    show ?thesis
    proof (cases i)
      case (Native f)
      show ?thesis
      proof (cases "f = op_CALL")
        case True
        show ?thesis
        proof (cases "cell code (pc + 1)")
          case None
          with Suc.prems Some Native True show ?thesis by simp
        next
          case S2: (Some j)
          show ?thesis
          proof (cases j)
            case (WordPtr a)
            show ?thesis
            proof (cases "a < length H")
              case False
              with Suc.prems Some Native True S2 WordPtr show ?thesis by simp
            next
              case lt: True
              show ?thesis
              proof (cases "run n H (H ! a) sp 0")
                case None
                with Suc.prems Some Native True S2 WordPtr lt show ?thesis by simp
              next
                case S3: (Some r1)
                from Suc.IH [OF S3] have m1: "run (n + k) H (H ! a) sp 0 = Some r1" .
                show ?thesis
                proof (cases r1)
                  case (Returned sp')
                  with Suc.prems Some Native True S2 WordPtr lt S3
                  have "run n H code sp' (pc + 2) = Some r" by simp
                  from Suc.IH [OF this] have "run (n + k) H code sp' (pc + 2) = Some r" .
                  with Some Native True S2 WordPtr lt m1 Returned show ?thesis by simp
                next
                  case Undefined
                  with Suc.prems Some Native True S2 WordPtr lt S3 m1 show ?thesis by simp
                next
                  case Unmodelled
                  with Suc.prems Some Native True S2 WordPtr lt S3 m1 show ?thesis by simp
                qed
              qed
            qed
          qed (use Suc.prems Some Native True S2 in simp_all)
        qed
      next
        case False
        show ?thesis
        proof (cases "native f code sp (pc + 1)")
          case (NEXT sp' pc')
          with Suc.prems Some Native False have "run n H code sp' pc' = Some r" by simp
          from Suc.IH [OF this] Some Native False NEXT show ?thesis by simp
        next
          case (Halt x)
          with Suc.prems Some Native False show ?thesis by simp
        qed
      qed
    qed (use Suc.prems Some in simp_all)
  qed
qed

lemma run_deterministic:
  assumes "run n H code sp pc = Some r" "run m H code sp pc = Some r'"
  shows "r = r'"
proof (cases "n \<le> m")
  case True
  then obtain k where "m = n + k" using le_Suc_ex by blast
  with run_mono [OF assms(1), of k] assms(2) show ?thesis by simp
next
  case False
  then obtain k where "n = m + k" by (metis le_Suc_ex nat_le_linear)
  with run_mono [OF assms(2), of k] assms(1) show ?thesis by simp
qed

section \<open>The dead-code pass\<close>

text \<open>
  Claim C7. The claim is that the dead-code pass preserves the behaviour of a word. It
  does not when the word ends with an unconditional branch and another branch leads to
  the end of the word: the terminating \<^verbatim>\<open>_RETURN\<close> is stored without the flag
  \<^verbatim>\<open>isBranchDestination\<close> of the placeholder that it replaces, the pass erases it as
  unreachable, and the second loop then reads the pc offset of the erased node, which is
  undefined behaviour. For \<^verbatim>\<open>7 1 IF RETURN ELSE THEN\<close> the word compiled without the pass
  returns the stack with the single value 7, and \<^verbatim>\<open>generateInstructions\<close> with the pass
  is undefined; the same happens to the loop \<^verbatim>\<open>1 BEGIN DUP WHILE 1 - REPEAT\<close>, which is
  compiled without the pass and undefined with it.
\<close>

theorem dead_code_pass_erases_RETURN:
  "runParser_keeping_dead_code (effect_0_1 2) 100 early_return_source = Inr (Some (Returned [Number 7]))
   \<and> runParser (effect_0_1 2) 100 early_return_source = Inl undefined_behaviour
   \<and> map_sum id fst (generate_keeping_dead_code (effect_0_1 2) countdown_source) =
       Inr [Native op_INT, Offset 1, Native op_DUP, Native op_ZBRANCH, Offset 6,
            Native op_INT, Offset 1, Native op_MINUS, Native op_BRANCH, Offset (- 7),
            Native op_RETURN]
   \<and> map_sum id fst (generate (effect_0_1 2) countdown_source) = Inl undefined_behaviour"
  by code_simp

section \<open>Errors and the vocabulary\<close>

lemma finish_generate_error:
  "generateInstructions computeEffect c = Inl e \<Longrightarrow> finish computeEffect c rt = (Inl e, rt)"
  by (simp add: finish_def)

lemma finish_compile_error:
  "fst (finish computeEffect c rt) = Inl (compile_error m p) \<Longrightarrow> snd (finish computeEffect c rt) = rt"
  by (auto simp: finish_def split: sum.splits prod.splits if_splits)

lemma compile_compile_error:
  "fst (compile computeEffect rs rt) = Inl (compile_error m p) \<Longrightarrow> snd (compile computeEffect rs rt) = rt"
  by (cases "add_all rs Compiler_new") (simp_all add: compile_def finish_compile_error)

lemma parse_and_finish_compile_error:
  "fst (parse_and_finish computeEffect src rt) = Inl (compile_error m p) \<Longrightarrow>
   snd (parse_and_finish computeEffect src rt) = rt"
  by (cases "parse (\<lambda>w. []) (lookupWord rt) src Compiler_new")
     (simp_all add: parse_and_finish_def finish_compile_error)

lemma generate_unfinished:
  "controlStack c \<noteq> [] \<Longrightarrow>
   generateInstructions computeEffect c =
     Inl (compile_error ''Unfinished IF-ELSE-THEN or BEGIN-WHILE-REPEAT)'' None)"
  by (simp add: generateInstructions_def)

lemma generate_check_fails:
  "controlStack c = [] \<Longrightarrow> dropArgsEpilogue c = Inr c1 \<Longrightarrow> addReturn c1 = Inr c2 \<Longrightarrow>
   computeEffect c2 = Inl e \<Longrightarrow> generateInstructions computeEffect c = Inl e"
  by (simp add: generateInstructions_def)

text \<open>
  Claim C8. A compile error raised by \<^verbatim>\<open>generateInstructions\<close> (an unfinished control-flow
  stack, a failure of the stack check) leaves \<^verbatim>\<open>finish()\<close> and the constructor of
  \<^verbatim>\<open>CompiledWord\<close> as it is, and the vocabularies and the heap are exactly what they were
  before: whenever \<^verbatim>\<open>finish()\<close>, \<^verbatim>\<open>Compiler::compile\<close>, or parsing followed by
  \<^verbatim>\<open>finish()\<close> ends with a compile error, the program state is unchanged. The errors of the
  parser-facing functions (a magic word, a control-flow mismatch) are raised by functions
  of the compiler alone, which have no access to the vocabularies.
\<close>

theorem compile_error_leaves_vocabulary:
  "(\<forall>e. generateInstructions computeEffect c = Inl e \<longrightarrow> finish computeEffect c rt = (Inl e, rt))
   \<and> (\<forall>m p. fst (finish computeEffect c rt) = Inl (compile_error m p) \<longrightarrow>
         snd (finish computeEffect c rt) = rt)
   \<and> (\<forall>m p. fst (compile computeEffect rs rt) = Inl (compile_error m p) \<longrightarrow>
         snd (compile computeEffect rs rt) = rt)
   \<and> (\<forall>m p. fst (parse_and_finish computeEffect src rt) = Inl (compile_error m p) \<longrightarrow>
         snd (parse_and_finish computeEffect src rt) = rt)
   \<and> (controlStack c \<noteq> [] \<longrightarrow>
         finish computeEffect c rt =
           (Inl (compile_error ''Unfinished IF-ELSE-THEN or BEGIN-WHILE-REPEAT)'' None), rt))
   \<and> (\<forall>c1 c2 e. controlStack c = [] \<longrightarrow> dropArgsEpilogue c = Inr c1 \<longrightarrow> addReturn c1 = Inr c2 \<longrightarrow>
         computeEffect c2 = Inl e \<longrightarrow> finish computeEffect c rt = (Inl e, rt))"
proof (intro conjI allI impI)
  fix e assume "generateInstructions computeEffect c = Inl e"
  then show "finish computeEffect c rt = (Inl e, rt)" by (rule finish_generate_error)
next
  fix m p assume "fst (finish computeEffect c rt) = Inl (compile_error m p)"
  then show "snd (finish computeEffect c rt) = rt" by (rule finish_compile_error)
next
  fix m p assume "fst (compile computeEffect rs rt) = Inl (compile_error m p)"
  then show "snd (compile computeEffect rs rt) = rt" by (rule compile_compile_error)
next
  fix m p assume "fst (parse_and_finish computeEffect src rt) = Inl (compile_error m p)"
  then show "snd (parse_and_finish computeEffect src rt) = rt"
    by (rule parse_and_finish_compile_error)
next
  assume "controlStack c \<noteq> []"
  then show "finish computeEffect c rt =
      (Inl (compile_error ''Unfinished IF-ELSE-THEN or BEGIN-WHILE-REPEAT)'' None), rt)"
    by (intro finish_generate_error generate_unfinished)
next
  fix c1 c2 e
  assume "controlStack c = []" "dropArgsEpilogue c = Inr c1" "addReturn c1 = Inr c2"
    "computeEffect c2 = Inl e"
  then show "finish computeEffect c rt = (Inl e, rt)"
    by (intro finish_generate_error generate_check_fails)
qed

lemma parse_error_BRANCH:
  "fst (parse_and_finish (effect_0_1 1) ''1 BRANCH'' Runtime_init) =
     Inl (compile_error ''Special word BRANCH cannot be added by parser'' None)"
  by code_simp

lemma parse_error_THEN:
  "fst (parse_and_finish (effect_0_1 1) ''1 THEN'' Runtime_init) =
     Inl (compile_error ''no matching IF or WHILE'' None)"
  by code_simp

lemma parse_error_IF:
  "fst (parse_and_finish (effect_0_1 1) ''1 IF 2'' Runtime_init) =
     Inl (compile_error ''Unfinished IF-ELSE-THEN or BEGIN-WHILE-REPEAT)'' None)"
  by code_simp

theorem compile_error_leaves_vocabulary_witness:
  "finish (effect_0_1 1) (Compiler_new\<lparr>controlStack := [(CHR ''i'', 0)]\<rparr>) Runtime_init =
     (Inl (compile_error ''Unfinished IF-ELSE-THEN or BEGIN-WHILE-REPEAT)'' None), Runtime_init)
   \<and> finish (\<lambda>c. Inl (compile_error ''stack underflow'' None)) Compiler_new Runtime_init =
     (Inl (compile_error ''stack underflow'' None), Runtime_init)
   \<and> snd (parse_and_finish (effect_0_1 1) ''1 BRANCH'' Runtime_init) = Runtime_init"
proof -
  have a: "controlStack (Compiler_new\<lparr>controlStack := [(CHR ''i'', 0)]\<rparr>) \<noteq> []" by simp
  have b: "generateInstructions (\<lambda>c. Inl (compile_error ''stack underflow'' None)) Compiler_new
             = Inl (compile_error ''stack underflow'' None)"
    by (simp add: generateInstructions_def Compiler_new_def dropArgsEpilogue_def addReturn_def
        SourceWord_of_def WordRef_of_def)
  note T1 = compile_error_leaves_vocabulary
         [of "effect_0_1 1" "Compiler_new\<lparr>controlStack := [(CHR ''i'', 0)]\<rparr>" Runtime_init "[]" "[]"]
  note T2 = compile_error_leaves_vocabulary
         [of "\<lambda>c. Inl (compile_error ''stack underflow'' None)" Compiler_new Runtime_init "[]" "[]"]
  note T3 = compile_error_leaves_vocabulary
         [of "effect_0_1 1" Compiler_new Runtime_init "[]" "''1 BRANCH''"]
  note 1 = T1 [THEN conjunct2, THEN conjunct2, THEN conjunct2, THEN conjunct2, THEN conjunct1,
               THEN mp, OF a]
  note 2 = T2 [THEN conjunct1, THEN spec, THEN mp, OF b]
  note 3 = T3 [THEN conjunct2, THEN conjunct2, THEN conjunct2, THEN conjunct1,
               THEN spec, THEN spec, THEN mp, OF parse_error_BRANCH]
  show ?thesis by (rule conjI [OF 1 conjI [OF 2 3]])
qed

section \<open>The loop that assigns pc offsets\<close>


lemma detectTailRecursion_word:
  "detectTailRecursion front w rest fl = Inr (w1, fl1) \<Longrightarrow>
     (w1 = w \<or> w1 = w\<lparr>word := BRANCH\<rparr>)"
  by (auto simp: detectTailRecursion_def split: if_splits list.splits sum.splits)

lemma followChain_word:
  "followChain front w1 rest = Inr w2 \<Longrightarrow> (\<exists>d. w2 = w1 \<or> w2 = w1\<lparr>branchTo := d\<rparr>)"
  by (auto simp: followChain_def split: option.splits sum.splits)

lemma processed_word:
  assumes "detectTailRecursion front w rest fl = Inr (w1, fl1)" "followChain front w1 rest = Inr w2"
  shows "word w2 = word w \<or> word w2 = BRANCH"
  using detectTailRecursion_word [OF assms(1)] followChain_word [OF assms(2)] by auto


lemma RETURN_not_RECURSE: "RETURN \<noteq> RECURSE"
  by (simp add: RETURN_def RECURSE_def Word_native_def)


lemma assignOffsets_step:
  "assignOffsets front (w # rest) ab sz fl = Inr (ws', fl') \<Longrightarrow> \<not> (ab \<and> \<not> isBranchDestination w) \<Longrightarrow>
    \<exists>w1 fl1 w2. detectTailRecursion front w rest fl = Inr (w1, fl1)
      \<and> followChain front w1 rest = Inr w2
      \<and> assignOffsets (front @ [w2\<lparr>pc_offset := int sz\<rparr>]) rest (word w2 = BRANCH)
            (sz + length (Assembler_add (word w2) (param w2))) fl1 = Inr (ws', fl')"
  by (auto split: sum.splits prod.splits)



lemma processed_nodeId:
  assumes "detectTailRecursion front w rest fl = Inr (w1, fl1)" "followChain front w1 rest = Inr w2"
  shows "nodeId w2 = nodeId w"
  using detectTailRecursion_word [OF assms(1)] followChain_word [OF assms(2)] by auto













lemma Assembler_add_RETURN: "Assembler_add RETURN p = [Native op_RETURN]"
  by (simp add: Assembler_add_def RETURN_def Word_native_def isNative_def hasFlag_def
      hasAnyParam_def Native_flag_def HasIntParam_def HasValParam_def)







section \<open>The epilogue\<close>

lemma word8_pos_iff: "((of_nat n :: 8 word) > 0) = (n mod 256 \<noteq> 0)"
  by (simp add: word_greater_zero_iff word_of_nat_eq_0_iff dvd_eq_mod_eq_0)

lemma byte_of_nat:
  "n < 256 \<Longrightarrow> unat (of_nat n :: 8 word) = n"
  "n < 256 \<Longrightarrow> ((of_nat n :: 8 word) > 0) = (0 < n)"
  by (simp_all add: unat_of_nat word8_pos_iff)

lemma word_distinct:
  "DROPARGS \<noteq> RECURSE" "DROPARGS \<noteq> BRANCH" "DROPARGS \<noteq> RETURN" "RETURN \<noteq> BRANCH"
  "DROPARGS \<noteq> NOP"
  by (simp_all add: DROPARGS_def RECURSE_def BRANCH_def RETURN_def NOP_def Word_native_def)

lemma assignOffsets_split:
  "assignOffsets front (xs @ ys) ab sz fl = Inr (ws', fl') \<Longrightarrow>
   ab = (front \<noteq> [] \<and> word (last front) = BRANCH) \<Longrightarrow>
   \<exists>kept sz' fl1.
      assignOffsets (front @ kept) ys (front @ kept \<noteq> [] \<and> word (last (front @ kept)) = BRANCH) sz' fl1
        = Inr (ws', fl')
      \<and> (\<forall>k\<in>set kept. word k = BRANCH \<or> (\<exists>x\<in>set xs. word k = word x))
      \<and> set (map nodeId kept) \<subseteq> set (map nodeId xs)
      \<and> ((if xs = [] then ab else word (last xs) = BRANCH)
            \<longrightarrow> front @ kept \<noteq> [] \<and> word (last (front @ kept)) = BRANCH)"
proof (induction xs arbitrary: front ab sz fl)
  case Nil
  then show ?case by (intro exI [of _ "[]"] exI [of _ sz] exI [of _ fl]) simp
next
  case (Cons x xs)
  show ?case
  proof (cases "ab \<and> \<not> isBranchDestination x")
    case True
    with Cons.prems(1) have "assignOffsets front (xs @ ys) ab sz fl = Inr (ws', fl')" by simp
    from Cons.IH [OF this Cons.prems(2)] obtain kept sz' fl1 where
      k: "assignOffsets (front @ kept) ys (front @ kept \<noteq> [] \<and> word (last (front @ kept)) = BRANCH) sz' fl1
            = Inr (ws', fl')"
         "\<forall>k\<in>set kept. word k = BRANCH \<or> (\<exists>x\<in>set xs. word k = word x)"
         "set (map nodeId kept) \<subseteq> set (map nodeId xs)"
         "(if xs = [] then ab else word (last xs) = BRANCH)
            \<longrightarrow> front @ kept \<noteq> [] \<and> word (last (front @ kept)) = BRANCH"
      by blast
    from k(4) True have k4: "(if x # xs = [] then ab else word (last (x # xs)) = BRANCH)
            \<longrightarrow> front @ kept \<noteq> [] \<and> word (last (front @ kept)) = BRANCH"
      by (cases "xs = []") simp_all
    show ?thesis
      by (intro exI [of _ kept] exI [of _ sz'] exI [of _ fl1] conjI)
         (use k(1,2,3) k4 in auto)
  next
    case False
    from Cons.prems(1) have p: "assignOffsets front (x # xs @ ys) ab sz fl = Inr (ws', fl')" by simp
    from assignOffsets_step [OF p False] obtain w1 fl1 w2 where
      d: "detectTailRecursion front x (xs @ ys) fl = Inr (w1, fl1)" and
      f: "followChain front w1 (xs @ ys) = Inr w2" and
      a: "assignOffsets (front @ [w2\<lparr>pc_offset := int sz\<rparr>]) (xs @ ys) (word w2 = BRANCH)
            (sz + length (Assembler_add (word w2) (param w2))) fl1 = Inr (ws', fl')"
      by blast
    define F where "F = front @ [w2\<lparr>pc_offset := int sz\<rparr>]"
    have b: "(word w2 = BRANCH) = (F \<noteq> [] \<and> word (last F) = BRANCH)"
      by (simp add: F_def)
    from a have a': "assignOffsets F (xs @ ys) (word w2 = BRANCH)
            (sz + length (Assembler_add (word w2) (param w2))) fl1 = Inr (ws', fl')"
      by (simp add: F_def)
    from Cons.IH [OF a' b] obtain kept sz' fl2 where
      k: "assignOffsets (F @ kept) ys (F @ kept \<noteq> [] \<and> word (last (F @ kept)) = BRANCH) sz' fl2
            = Inr (ws', fl')"
         "\<forall>k\<in>set kept. word k = BRANCH \<or> (\<exists>x\<in>set xs. word k = word x)"
         "set (map nodeId kept) \<subseteq> set (map nodeId xs)"
         "(if xs = [] then word w2 = BRANCH else word (last xs) = BRANCH)
            \<longrightarrow> F @ kept \<noteq> [] \<and> word (last (F @ kept)) = BRANCH"
      by blast
    from processed_word [OF d f] have w: "word w2 = word x \<or> word w2 = BRANCH" .
    from processed_nodeId [OF d f] have id: "nodeId w2 = nodeId x" .
    have e: "F @ kept = front @ (w2\<lparr>pc_offset := int sz\<rparr> # kept)" by (simp add: F_def)
    have k4: "(if x # xs = [] then ab else word (last (x # xs)) = BRANCH)
            \<longrightarrow> F @ kept \<noteq> [] \<and> word (last (F @ kept)) = BRANCH"
      using k(4) w by (cases "xs = []") auto
    show ?thesis
      by (intro exI [of _ "w2\<lparr>pc_offset := int sz\<rparr> # kept"] exI [of _ sz'] exI [of _ fl2] conjI)
         (use k(1,2,3) k4 w id in \<open>auto simp: e [symmetric]\<close>)
  qed
qed

lemma assignOffsets_epilogue:
  assumes "assignOffsets F (ds @ [r]) ab sz fl = Inr (ws', fl')"
    and "ds = [] \<or> (\<exists>d. ds = [d] \<and> word d = DROPARGS \<and> branchTo d = None)"
    and "word r = RETURN" "branchTo r = None" "\<not> isBranchDestination r"
    and "ab = (F \<noteq> [] \<and> word (last F) = BRANCH)"
  shows "(ws' = F \<and> F \<noteq> [] \<and> word (last F) = BRANCH)
       \<or> (take (length F) ws' = F
           \<and> map (\<lambda>w. (word w, param w, branchTo w)) (drop (length F) ws')
               = map (\<lambda>w. (word w, param w, branchTo w)) (ds @ [r]))"
  using assms
  by (auto simp: detectTailRecursion_def followChain_def word_distinct RETURN_not_RECURSE
      split: if_splits)


lemma epilogue_list:
  assumes e: "dropArgsEpilogue c = Inr c1" "addReturn c1 = Inr c2"
    and fit: "inputCount (c_effect c) + length (localsTypes c) < 256"
  shows "c_words c \<noteq> [] \<and> c_flags c2 = c_flags c \<and>
     c_words c2 = butlast (c_words c)
       @ (if (usesArgs c \<or> localsTypes c \<noteq> []) \<and> 0 < inputCount (c_effect c) + length (localsTypes c)
          then [(SourceWord_of (WordRef_param DROPARGS
                    (DropCount (of_nat (inputCount (c_effect c) + length (localsTypes c)))
                               (of_nat (outputCount (c_effect c))))) None (nodeId (last (c_words c))))
                  \<lparr>isBranchDestination := isBranchDestination (last (c_words c))\<rparr>]
          else [])
       @ [SourceWord_of (WordRef_of RETURN) None
            (if (usesArgs c \<or> localsTypes c \<noteq> []) \<and> 0 < inputCount (c_effect c) + length (localsTypes c)
             then nextNode c else nodeId (last (c_words c)))]"
  using e byte_of_nat(2) [OF fit]
  by (cases "c_words c")
     (auto simp: dropArgsEpilogue_def addReturn_def add_def Let_def butlast_append
        SourceWord_of_def WordRef_of_def WordRef_param_def
        split: if_splits simp del: of_nat_add)

lemma assemble_append:
  "assemble ws (xs @ ys) = Inr code \<Longrightarrow>
     \<exists>a b. assemble ws xs = Inr a \<and> assemble ws ys = Inr b \<and> code = a @ b"
proof (induction xs arbitrary: code)
  case Nil
  then show ?case by simp
next
  case (Cons x xs)
  from Cons.prems obtain q code' where
    q: "branchParam ws x = Inr q" and a: "assemble ws (xs @ ys) = Inr code'"
    and c: "code = Assembler_add (word x) q @ code'"
    by (auto split: sum.splits)
  from Cons.IH [OF a] obtain a' b where
    "assemble ws xs = Inr a'" "assemble ws ys = Inr b" "code' = a' @ b" by blast
  with q c show ?case by (intro exI [of _ "Assembler_add (word x) q @ a'"] exI [of _ b]) simp
qed

lemma Assembler_add_DROPARGS: "Assembler_add DROPARGS p = [Native op_DROPARGS, p]"
  by (simp add: Assembler_add_def DROPARGS_def Word_native_def isNative_def hasFlag_def
      hasAnyParam_def Native_flag_def HasIntParam_def HasValParam_def Magic_def)

lemma assemble_epilogue:
  assumes "assemble ws [d, r] = Inr b" "word d = DROPARGS" "branchTo d = None"
    "word r = RETURN" "branchTo r = None"
  shows "b = [Native op_DROPARGS, param d, Native op_RETURN]"
  using assms
  by (auto simp: branchParam_def Assembler_add_DROPARGS Assembler_add_RETURN split: sum.splits)


lemma usesArgs_set:
  "addGetArg k s c0 = Inr (i, c1) \<Longrightarrow> usesArgs c1"
  "addSetArg k s c0 = Inr (i, c1) \<Longrightarrow> usesArgs c1 = usesArgs c0"
  "add r s c0 = Inr (i, c1) \<Longrightarrow> usesArgs c1 = usesArgs c0"
  by (auto simp: addGetArg_def addSetArg_def add_def Let_def split: if_splits list.splits)

lemma generateInstructions_epilogue:
  assumes gen: "generateInstructions computeEffect c = Inr (code, c')"
    and fit: "inputCount (c_effect c) + length (localsTypes c) < 256"
    and nd: "\<forall>w\<in>set (c_words c). word w \<noteq> DROPARGS"
  shows "if ((usesArgs c \<or> localsTypes c \<noteq> []) \<and> 0 < inputCount (c_effect c) + length (localsTypes c))
            \<and> word (last (c_words c')) = RETURN
         then \<exists>ws pre. map (\<lambda>w. (word w, param w)) (c_words c')
                   = ws @ [(DROPARGS, DropCount (of_nat (inputCount (c_effect c) + length (localsTypes c)))
                                                (of_nat (outputCount (c_effect c)))),
                           (RETURN, Offset 0)]
                \<and> (\<forall>x\<in>set ws. fst x \<noteq> DROPARGS)
                \<and> code = pre @ [Native op_DROPARGS,
                                 DropCount (of_nat (inputCount (c_effect c) + length (localsTypes c)))
                                           (of_nat (outputCount (c_effect c))),
                                 Native op_RETURN]
         else \<forall>w\<in>set (c_words c'). word w \<noteq> DROPARGS"
proof -
  define D where "D = ((usesArgs c \<or> localsTypes c \<noteq> []) \<and> 0 < inputCount (c_effect c) + length (localsTypes c))"
  define P where "P = DropCount (of_nat (inputCount (c_effect c) + length (localsTypes c)))
                                (of_nat (outputCount (c_effect c)) :: 8 word)"
  define dd where "dd = (SourceWord_of (WordRef_param DROPARGS P) None (nodeId (last (c_words c))))
                  \<lparr>isBranchDestination := isBranchDestination (last (c_words c))\<rparr>"
  define r where "r = SourceWord_of (WordRef_of RETURN) None (if D then nextNode c else nodeId (last (c_words c)))"
  define ds where "ds = (if D then [dd] else [])"
  define f where "f = (\<lambda>w :: SourceWord. (word w, param w, branchTo w))"
  from gen obtain c1 c2 eff ws fl where
    s1: "dropArgsEpilogue c = Inr c1" and s2: "addReturn c1 = Inr c2" and
    s3: "assignOffsets [] (c_words c2) False 0 (c_flags c2) = Inr (ws, fl)" and
    s4: "assemble ws ws = Inr code" and
    s5: "c' = c2\<lparr>c_effect := eff, c_words := ws, c_flags := fl\<rparr>"
    by (auto simp: generateInstructions_def split: if_splits sum.splits prod.splits)
  from s5 have cw: "c_words c' = ws" by simp
  from epilogue_list [OF s1 s2 fit]
  have l: "c_words c2 = butlast (c_words c) @ ds @ [r]"
    unfolding ds_def r_def dd_def P_def D_def by simp
  have pd: "word dd = DROPARGS" "param dd = P" "branchTo dd = None"
    and pr: "word r = RETURN" "param r = Offset 0" "branchTo r = None" "\<not> isBranchDestination r"
    by (simp_all add: dd_def r_def SourceWord_of_def WordRef_of_def WordRef_param_def)
  from s3 l have a0: "assignOffsets [] (butlast (c_words c) @ ds @ [r]) False 0 (c_flags c2) = Inr (ws, fl)"
    by simp
  have ab0: "False = (([] :: SourceWord list) \<noteq> [] \<and> word (last []) = BRANCH)" by simp
  from assignOffsets_split [OF a0 ab0] obtain kept sz' fl1 where
    k1: "assignOffsets ([] @ kept) (ds @ [r]) ([] @ kept \<noteq> [] \<and> word (last ([] @ kept)) = BRANCH) sz' fl1
           = Inr (ws, fl)"
    and k2: "\<forall>k\<in>set kept. word k = BRANCH \<or> (\<exists>x\<in>set (butlast (c_words c)). word k = word x)"
    by blast
  have nk: "\<forall>k\<in>set kept. word k \<noteq> DROPARGS"
  proof
    fix k assume "k \<in> set kept"
    with k2 have "word k = BRANCH \<or> (\<exists>x\<in>set (butlast (c_words c)). word k = word x)" by blast
    then show "word k \<noteq> DROPARGS"
    proof
      assume "word k = BRANCH"
      then show ?thesis using word_distinct(2) by simp
    next
      assume "\<exists>x\<in>set (butlast (c_words c)). word k = word x"
      then obtain x where "x \<in> set (butlast (c_words c))" "word k = word x" by blast
      with nd show ?thesis by (metis in_set_butlastD)
    qed
  qed
  have dsc: "ds = [] \<or> (\<exists>d. ds = [d] \<and> word d = DROPARGS \<and> branchTo d = None)"
    using pd by (simp add: ds_def)
  from k1 have k1': "assignOffsets kept (ds @ [r]) (kept \<noteq> [] \<and> word (last kept) = BRANCH) sz' fl1 = Inr (ws, fl)"
    by simp
  from assignOffsets_epilogue [OF k1' dsc pr(1,3,4)]
  have "(ws = kept \<and> kept \<noteq> [] \<and> word (last kept) = BRANCH)
       \<or> (take (length kept) ws = kept \<and> map f (drop (length kept) ws) = map f (ds @ [r]))"
    unfolding f_def by simp
  then have res: "if D \<and> word (last ws) = RETURN
         then \<exists>ws0 pre. map (\<lambda>w. (word w, param w)) ws = ws0 @ [(DROPARGS, P), (RETURN, Offset 0)]
                \<and> (\<forall>x\<in>set ws0. fst x \<noteq> DROPARGS)
                \<and> code = pre @ [Native op_DROPARGS, P, Native op_RETURN]
         else \<forall>w\<in>set ws. word w \<noteq> DROPARGS"
  proof
    assume e: "ws = kept \<and> kept \<noteq> [] \<and> word (last kept) = BRANCH"
    then have "word (last ws) \<noteq> RETURN" using word_distinct(4) by auto
    moreover from e nk have "\<forall>w\<in>set ws. word w \<noteq> DROPARGS" by simp
    ultimately show ?thesis by simp
  next
    assume b: "take (length kept) ws = kept \<and> map f (drop (length kept) ws) = map f (ds @ [r])"
    define tl where "tl = drop (length kept) ws"
    from b have w: "ws = kept @ tl" unfolding tl_def by (metis append_take_drop_id)
    from b have m: "map f tl = map f (ds @ [r])" unfolding tl_def by simp
    show ?thesis
    proof (cases D)
      case False
      with m obtain r' where t: "tl = [r']" and "word r' = word r"
        by (auto simp: ds_def f_def map_eq_Cons_conv)
      with pr(1) word_distinct(3) have "word r' \<noteq> DROPARGS" by simp
      with nk w t have "\<forall>w\<in>set ws. word w \<noteq> DROPARGS" by auto
      with False show ?thesis by simp
    next
      case True
      with m obtain d' r' where t: "tl = [d', r']"
        and d': "word d' = DROPARGS" "param d' = P" "branchTo d' = None"
        and r': "word r' = RETURN" "param r' = Offset 0" "branchTo r' = None"
        using pd pr by (auto simp: ds_def f_def map_eq_Cons_conv)
      from w t r' have lr: "word (last ws) = RETURN" by simp
      from s4 w t have "assemble ws (kept @ [d', r']) = Inr code" by simp
      from assemble_append [OF this] obtain a b where
        ab: "assemble ws [d', r'] = Inr b" "code = a @ b" by blast
      from assemble_epilogue [OF ab(1) d'(1,3) r'(1,3)] d'(2)
      have "b = [Native op_DROPARGS, P, Native op_RETURN]" by simp
      with ab(2) have c: "code = a @ [Native op_DROPARGS, P, Native op_RETURN]" by simp
      have mw: "map (\<lambda>w. (word w, param w)) ws
                  = map (\<lambda>w. (word w, param w)) kept @ [(DROPARGS, P), (RETURN, Offset 0)]"
        using w t d' r' by simp
      have nk': "\<forall>x\<in>set (map (\<lambda>w. (word w, param w)) kept). fst x \<noteq> DROPARGS"
        using nk by auto
      have "\<exists>ws0 pre. map (\<lambda>w. (word w, param w)) ws = ws0 @ [(DROPARGS, P), (RETURN, Offset 0)]
                \<and> (\<forall>x\<in>set ws0. fst x \<noteq> DROPARGS)
                \<and> code = pre @ [Native op_DROPARGS, P, Native op_RETURN]"
        using mw nk' c by blast
      with True lr show ?thesis by simp
    qed
  qed
  then show ?thesis unfolding cw D_def P_def .
qed

text \<open>
  Claim C6, amended. Take a compilation unit whose number of declared inputs plus locals
  and whose number of declared outputs each fit in a byte, and whose word list holds no
  \<^verbatim>\<open>_DROPARGS\<close> of its own, and let \<^verbatim>\<open>generateInstructions\<close> compile it. A single
  \<^verbatim>\<open>_DROPARGS\<close> is appended to the word list, immediately in front of the terminating
  \<^verbatim>\<open>_RETURN\<close>, if and only if the word uses its arguments or has locals, and the number of
  declared inputs plus the number of locals is greater than zero; its packed parameter
  holds that number and the number of declared outputs. Otherwise the placeholder just
  becomes the \<^verbatim>\<open>_RETURN\<close>. In the emitted stream: when the \<^verbatim>\<open>_DROPARGS\<close> was appended and the
  stream ends with the \<^verbatim>\<open>_RETURN\<close>, the \<^verbatim>\<open>_DROPARGS\<close> with its parameter stands immediately
  in front of that \<^verbatim>\<open>_RETURN\<close> and is the only one; in every other case the stream holds no
  \<^verbatim>\<open>_DROPARGS\<close> (none was appended, or the dead-code pass removed it together with the
  \<^verbatim>\<open>_RETURN\<close>). A word uses its arguments when \<^verbatim>\<open>addGetArg\<close> was called: that function sets
  the flag, and \<^verbatim>\<open>addSetArg\<close> and \<^verbatim>\<open>add\<close> leave it as it is.
\<close>

theorem epilogue_DROPARGS:
  assumes gen: "generateInstructions computeEffect c = Inr (code, c')"
    and fit: "inputCount (c_effect c) + length (localsTypes c) < 256" "outputCount (c_effect c) < 256"
    and nd: "\<forall>w\<in>set (c_words c). word w \<noteq> DROPARGS"
  shows "(\<exists>c1 c2. dropArgsEpilogue c = Inr c1 \<and> addReturn c1 = Inr c2 \<and>
            map (\<lambda>w. (word w, param w)) (c_words c2) =
              map (\<lambda>w. (word w, param w)) (butlast (c_words c))
              @ (if (usesArgs c \<or> localsTypes c \<noteq> []) \<and> 0 < inputCount (c_effect c) + length (localsTypes c)
                 then [(DROPARGS, DropCount (of_nat (inputCount (c_effect c) + length (localsTypes c)))
                                            (of_nat (outputCount (c_effect c))))]
                 else [])
              @ [(RETURN, Offset 0)])
       \<and> unat (of_nat (inputCount (c_effect c) + length (localsTypes c)) :: 8 word)
            = inputCount (c_effect c) + length (localsTypes c)
       \<and> unat (of_nat (outputCount (c_effect c)) :: 8 word) = outputCount (c_effect c)
       \<and> (if ((usesArgs c \<or> localsTypes c \<noteq> []) \<and> 0 < inputCount (c_effect c) + length (localsTypes c))
              \<and> word (last (c_words c')) = RETURN
           then \<exists>ws pre. map (\<lambda>w. (word w, param w)) (c_words c')
                     = ws @ [(DROPARGS, DropCount (of_nat (inputCount (c_effect c) + length (localsTypes c)))
                                                  (of_nat (outputCount (c_effect c)))),
                             (RETURN, Offset 0)]
                  \<and> (\<forall>x\<in>set ws. fst x \<noteq> DROPARGS)
                  \<and> code = pre @ [Native op_DROPARGS,
                                   DropCount (of_nat (inputCount (c_effect c) + length (localsTypes c)))
                                             (of_nat (outputCount (c_effect c))),
                                   Native op_RETURN]
           else \<forall>w\<in>set (c_words c'). word w \<noteq> DROPARGS)
       \<and> (\<forall>k s c0 i c1. addGetArg k s c0 = Inr (i, c1) \<longrightarrow> usesArgs c1)
       \<and> (\<forall>k s c0 i c1. addSetArg k s c0 = Inr (i, c1) \<longrightarrow> usesArgs c1 = usesArgs c0)
       \<and> (\<forall>r s c0 i c1. add r s c0 = Inr (i, c1) \<longrightarrow> usesArgs c1 = usesArgs c0)"
proof -
  from gen obtain c1 c2 where
    s1: "dropArgsEpilogue c = Inr c1" and s2: "addReturn c1 = Inr c2"
    by (auto simp: generateInstructions_def split: if_splits sum.splits prod.splits)
  from epilogue_list [OF s1 s2 fit(1)]
  have "map (\<lambda>w. (word w, param w)) (c_words c2) =
              map (\<lambda>w. (word w, param w)) (butlast (c_words c))
              @ (if (usesArgs c \<or> localsTypes c \<noteq> []) \<and> 0 < inputCount (c_effect c) + length (localsTypes c)
                 then [(DROPARGS, DropCount (of_nat (inputCount (c_effect c) + length (localsTypes c)))
                                            (of_nat (outputCount (c_effect c))))]
                 else [])
              @ [(RETURN, Offset 0)]"
    by (simp add: SourceWord_of_def WordRef_of_def WordRef_param_def del: of_nat_add)
  with s1 s2 have p1: "\<exists>c1 c2. dropArgsEpilogue c = Inr c1 \<and> addReturn c1 = Inr c2 \<and>
            map (\<lambda>w. (word w, param w)) (c_words c2) =
              map (\<lambda>w. (word w, param w)) (butlast (c_words c))
              @ (if (usesArgs c \<or> localsTypes c \<noteq> []) \<and> 0 < inputCount (c_effect c) + length (localsTypes c)
                 then [(DROPARGS, DropCount (of_nat (inputCount (c_effect c) + length (localsTypes c)))
                                            (of_nat (outputCount (c_effect c))))]
                 else [])
              @ [(RETURN, Offset 0)]"
    by blast
  note p2 = byte_of_nat(1) [OF fit(1)]
  note p3 = byte_of_nat(1) [OF fit(2)]
  note p4 = generateInstructions_epilogue [OF gen fit(1) nd]
  have p5: "\<forall>k s c0 i c1. addGetArg k s c0 = Inr (i, c1) \<longrightarrow> usesArgs c1"
    using usesArgs_set(1) by blast
  have p6: "\<forall>k s c0 i c1. addSetArg k s c0 = Inr (i, c1) \<longrightarrow> usesArgs c1 = usesArgs c0"
    using usesArgs_set(2) by blast
  have p7: "\<forall>r s c0 i c1. add r s c0 = Inr (i, c1) \<longrightarrow> usesArgs c1 = usesArgs c0"
    using usesArgs_set(3) by blast
  from p1 p2 p3 p4 p5 p6 p7 show ?thesis by (intro conjI)
qed

theorem epilogue_DROPARGS_witness:
  "\<exists>code c'. generateInstructions declaredEffect two_locals_compiler = Inr (code, c')
     \<and> code = [Native op_LOCALS, Offset 2, Native op_DROPARGS, DropCount 2 0, Native op_RETURN]
     \<and> (\<exists>ws pre. map (\<lambda>w. (word w, param w)) (c_words c') = ws @ [(DROPARGS, DropCount 2 0), (RETURN, Offset 0)]
           \<and> code = pre @ [Native op_DROPARGS, DropCount 2 0, Native op_RETURN])"
proof -
  have "map_sum id fst (generateInstructions declaredEffect two_locals_compiler)
          = Inr [Native op_LOCALS, Offset 2, Native op_DROPARGS, DropCount 2 0, Native op_RETURN]"
    by code_simp
  then obtain c' where g: "generateInstructions declaredEffect two_locals_compiler
          = Inr ([Native op_LOCALS, Offset 2, Native op_DROPARGS, DropCount 2 0, Native op_RETURN], c')"
    by (cases "generateInstructions declaredEffect two_locals_compiler") auto
  have i: "inputCount (c_effect two_locals_compiler) = 0" "length (localsTypes two_locals_compiler) = 2"
    "outputCount (c_effect two_locals_compiler) = 0"
    by code_simp+
  have f1: "inputCount (c_effect two_locals_compiler) + length (localsTypes two_locals_compiler) < 256"
    and f2: "outputCount (c_effect two_locals_compiler) < 256"
    by (simp_all add: i)
  have "list_all (\<lambda>w. word w \<noteq> DROPARGS) (c_words two_locals_compiler)" by code_simp
  then have n: "\<forall>w\<in>set (c_words two_locals_compiler). word w \<noteq> DROPARGS" by (simp add: list_all_iff)
  have "word (last (case generateInstructions declaredEffect two_locals_compiler of
                      Inl e \<Rightarrow> [] | Inr (code, c') \<Rightarrow> c_words c')) = RETURN"
    by code_simp
  then have l: "word (last (c_words c')) = RETURN" by (simp add: g)
  have d: "(usesArgs two_locals_compiler \<or> localsTypes two_locals_compiler \<noteq> [])
           \<and> 0 < inputCount (c_effect two_locals_compiler) + length (localsTypes two_locals_compiler)"
    using i by auto
  from epilogue_DROPARGS [OF g f1 f2 n] d l
  have "\<exists>ws pre. map (\<lambda>w. (word w, param w)) (c_words c')
                     = ws @ [(DROPARGS, DropCount (of_nat (inputCount (c_effect two_locals_compiler)
                                                              + length (localsTypes two_locals_compiler)))
                                                  (of_nat (outputCount (c_effect two_locals_compiler)))),
                             (RETURN, Offset 0)]
                  \<and> (\<forall>x\<in>set ws. fst x \<noteq> DROPARGS)
                  \<and> [Native op_LOCALS, Offset 2, Native op_DROPARGS, DropCount 2 0, Native op_RETURN]
                      = pre @ [Native op_DROPARGS,
                                   DropCount (of_nat (inputCount (c_effect two_locals_compiler)
                                                       + length (localsTypes two_locals_compiler)))
                                             (of_nat (outputCount (c_effect two_locals_compiler))),
                                   Native op_RETURN]"
    by simp
  then have "\<exists>ws pre. map (\<lambda>w. (word w, param w)) (c_words c') = ws @ [(DROPARGS, DropCount 2 0), (RETURN, Offset 0)]
           \<and> [Native op_LOCALS, Offset 2, Native op_DROPARGS, DropCount 2 0, Native op_RETURN]
               = pre @ [Native op_DROPARGS, DropCount 2 0, Native op_RETURN]"
    unfolding i by auto
  with g show ?thesis by auto
qed

text \<open>
  The claim as it is written fails in two ways. A word that has read an argument with
  \<^verbatim>\<open>addGetArg\<close> and has, at \<^verbatim>\<open>finish()\<close>, no declared inputs and no locals uses its
  arguments, and gets no \<^verbatim>\<open>_DROPARGS\<close>: the count of slots to drop is zero. And a word
  with a local variable that ends with a branch back to its first instruction has locals,
  and its stream holds no \<^verbatim>\<open>_DROPARGS\<close>: the dead-code pass removes it with the
  \<^verbatim>\<open>_RETURN\<close>.
\<close>

theorem epilogue_DROPARGS_counterexample:
  "map_sum id (\<lambda>c. (usesArgs c, inputCount (c_effect c), length (localsTypes c), map word (c_words c)))
       unused_argument_compiler
     = Inr (True, 0, 0, [GETARG, NOP])
   \<and> (case unused_argument_compiler of
         Inl e \<Rightarrow> Inl e
       | Inr c \<Rightarrow> map_sum id fst (generateInstructions declaredEffect c))
     = Inr [Native op_GETARG, Offset 0, Native op_RETURN]
   \<and> map_sum id (\<lambda>c. (length (localsTypes c), map word (c_words c))) local_loop_compiler
     = Inr (1, [LOCALS, NOP, BRANCH, NOP])
   \<and> (case local_loop_compiler of
         Inl e \<Rightarrow> Inl e
       | Inr c \<Rightarrow> map_sum id fst (generateInstructions declaredEffect c))
     = Inr [Native op_LOCALS, Offset 1, Native op_NOP, Native op_BRANCH, Offset (- 2)]"
  by code_simp

section \<open>Tail recursion\<close>














end
